theory Spec2Isabelle
  imports Complex_Main "HOL-Library.Log_Nat" "HOL-Library.Sublist"
begin

section \<open>JSON documents and the Python operations the coordinators apply to them\<close>

text \<open>
  The weather API answers with JSON, which \<^verbatim>\<open>response.json()\<close> turns into Python
  values: \<^verbatim>\<open>None\<close>, booleans, integers, floats, strings, lists and dictionaries with
  string keys.  A float is kept as the rational number it denotes (only whether it is
  zero matters below); a string is a list of characters; a dictionary is an association
  list read with \<open>map_of\<close>.
  Python's \<^verbatim>\<open>None\<close> and JSON's \<^verbatim>\<open>null\<close> are the same value \<open>JNull\<close>, so an
  accessor that returns \<^verbatim>\<open>None\<close> returns \<open>JNull\<close>.
\<close>

datatype json =
    JNull
  | JBool bool
  | JInt int
  | JFloat rat
  | JStr string
  | JArr "json list"
  | JObj "(string \<times> json) list"

text \<open>
  The exceptions the modelled code can meet.  \<open>ClientError\<close> stands for what the HTTP
  session raises: \<^verbatim>\<open>aiohttp.ClientError\<close>, \<^verbatim>\<open>asyncio.TimeoutError\<close> and the decoding
  errors of \<^verbatim>\<open>response.json()\<close>.  All of them are subclasses of \<^verbatim>\<open>Exception\<close>.
\<close>

datatype py_error =
    KeyError
  | IndexError
  | TypeError
  | AttributeError
  | OverflowError
  | ValueError string
  | ClientError

text \<open>Sequencing of a computation that may raise: the first exception wins.\<close>

definition and_then :: "py_error + 'a \<Rightarrow> ('a \<Rightarrow> py_error + 'b) \<Rightarrow> py_error + 'b" where
  "and_then r f = (case r of Inl e \<Rightarrow> Inl e | Inr v \<Rightarrow> f v)"

text \<open>Truth value of a Python object (\<^verbatim>\<open>if x:\<close>, \<^verbatim>\<open>not x\<close>, \<^verbatim>\<open>x or y\<close>).\<close>

fun truthy :: "json \<Rightarrow> bool" where
  "truthy JNull = False"
| "truthy (JBool b) = b"
| "truthy (JInt i) = (i \<noteq> 0)"
| "truthy (JFloat r) = (r \<noteq> 0)"
| "truthy (JStr s) = (s \<noteq> [])"
| "truthy (JArr xs) = (xs \<noteq> [])"
| "truthy (JObj kvs) = (kvs \<noteq> [])"

text \<open>\<^verbatim>\<open>x[k]\<close> with a string \<open>k\<close>: a dictionary looks the key up, a list or a string wants
  an integer index, and nothing else can be subscripted.\<close>

fun getitem_str :: "json \<Rightarrow> string \<Rightarrow> py_error + json" where
  "getitem_str (JObj kvs) k = (case map_of kvs k of None \<Rightarrow> Inl KeyError | Some v \<Rightarrow> Inr v)"
| "getitem_str JNull k = Inl TypeError"
| "getitem_str (JBool b) k = Inl TypeError"
| "getitem_str (JInt i) k = Inl TypeError"
| "getitem_str (JFloat r) k = Inl TypeError"
| "getitem_str (JStr s) k = Inl TypeError"
| "getitem_str (JArr xs) k = Inl TypeError"

text \<open>Python sequence indexing: a negative index counts from the end, an index outside
  the sequence raises \<^verbatim>\<open>IndexError\<close>.\<close>

definition list_index :: "'a list \<Rightarrow> int \<Rightarrow> py_error + 'a" where
  "list_index xs i =
     (if 0 \<le> i then
        (if i < int (length xs) then Inr (xs ! nat i) else Inl IndexError)
      else if - int (length xs) \<le> i then Inr (xs ! nat (int (length xs) + i))
      else Inl IndexError)"

text \<open>\<^verbatim>\<open>x[i]\<close> with an integer \<open>i\<close>.  A dictionary parsed from JSON has string keys only,
  so an integer key is never found.\<close>

fun getitem_int :: "json \<Rightarrow> int \<Rightarrow> py_error + json" where
  "getitem_int (JArr xs) i = list_index xs i"
| "getitem_int (JStr s) i = (case list_index s i of Inl e \<Rightarrow> Inl e | Inr c \<Rightarrow> Inr (JStr [c]))"
| "getitem_int (JObj kvs) i = Inl KeyError"
| "getitem_int JNull i = Inl TypeError"
| "getitem_int (JBool b) i = Inl TypeError"
| "getitem_int (JInt j) i = Inl TypeError"
| "getitem_int (JFloat r) i = Inl TypeError"

text \<open>\<^verbatim>\<open>sub in s\<close> on strings: \<open>sub\<close> occurs in \<open>s\<close> as a contiguous part.\<close>

fun occurs_in :: "string \<Rightarrow> string \<Rightarrow> bool" where
  "occurs_in sub [] = (sub = [])"
| "occurs_in sub (c # cs) = (prefix sub (c # cs) \<or> occurs_in sub cs)"

text \<open>\<^verbatim>\<open>k in x\<close> with a string \<open>k\<close>: key membership for a dictionary, element membership
  for a list, substring test for a string, \<^verbatim>\<open>TypeError\<close> for what cannot be iterated.\<close>

fun contains :: "string \<Rightarrow> json \<Rightarrow> py_error + bool" where
  "contains k (JObj kvs) = Inr (map_of kvs k \<noteq> None)"
| "contains k (JArr xs) = Inr (JStr k \<in> set xs)"
| "contains k (JStr s) = Inr (occurs_in k s)"
| "contains k JNull = Inl TypeError"
| "contains k (JBool b) = Inl TypeError"
| "contains k (JInt i) = Inl TypeError"
| "contains k (JFloat r) = Inl TypeError"

text \<open>\<^verbatim>\<open>x.get(k, d)\<close>: only a dictionary has the method.\<close>

fun py_get :: "json \<Rightarrow> string \<Rightarrow> json \<Rightarrow> py_error + json" where
  "py_get (JObj kvs) k d = Inr (case map_of kvs k of None \<Rightarrow> d | Some v \<Rightarrow> v)"
| "py_get JNull k d = Inl AttributeError"
| "py_get (JBool b) k d = Inl AttributeError"
| "py_get (JInt i) k d = Inl AttributeError"
| "py_get (JFloat r) k d = Inl AttributeError"
| "py_get (JStr s) k d = Inl AttributeError"
| "py_get (JArr xs) k d = Inl AttributeError"

text \<open>\<^verbatim>\<open>len(x)\<close>.\<close>

fun py_len :: "json \<Rightarrow> py_error + nat" where
  "py_len (JArr xs) = Inr (length xs)"
| "py_len (JStr s) = Inr (length s)"
| "py_len (JObj kvs) = Inr (length kvs)"
| "py_len JNull = Inl TypeError"
| "py_len (JBool b) = Inl TypeError"
| "py_len (JInt i) = Inl TypeError"
| "py_len (JFloat r) = Inl TypeError"

section \<open>The constants of \<^verbatim>\<open>const.py\<close>\<close>

text \<open>
  The module \<^verbatim>\<open>const.py\<close> is not among the sources.  The field names the coordinators
  import from it are therefore a parameter of every function that uses them, and every
  theorem below holds for all values of these names.
\<close>

record field_names =
  FIELD_OBSERVATIONS :: string
  FIELD_LONGITUDE :: string
  FIELD_LATITUDE :: string
  FIELD_CONDITION_HUMIDITY :: string
  FIELD_CONDITION_WINDDIR :: string
  FIELD_DAYPART :: string
  FIELD_FORECAST_VALIDTIMEUTC :: string
  FIELD_FORECAST_TEMPERATUREMAX :: string
  FIELD_FORECAST_TEMPERATUREMIN :: string
  FIELD_FORECAST_CALENDARDAYTEMPERATUREMAX :: string
  FIELD_FORECAST_CALENDARDAYTEMPERATUREMIN :: string

text \<open>The names the upstream API uses, for evaluating the functions on concrete
  documents (\<^verbatim>\<open>observations\<close>, \<^verbatim>\<open>lat\<close>, \<^verbatim>\<open>lon\<close>, \<^verbatim>\<open>humidity\<close>, \<^verbatim>\<open>winddir\<close> and
  \<^verbatim>\<open>daypart\<close> also occur as literals in the sources).\<close>

definition api_names :: field_names where
  "api_names = \<lparr>
     FIELD_OBSERVATIONS = ''observations'',
     FIELD_LONGITUDE = ''lon'',
     FIELD_LATITUDE = ''lat'',
     FIELD_CONDITION_HUMIDITY = ''humidity'',
     FIELD_CONDITION_WINDDIR = ''winddir'',
     FIELD_DAYPART = ''daypart'',
     FIELD_FORECAST_VALIDTIMEUTC = ''validTimeUtc'',
     FIELD_FORECAST_TEMPERATUREMAX = ''temperatureMax'',
     FIELD_FORECAST_TEMPERATUREMIN = ''temperatureMin'',
     FIELD_FORECAST_CALENDARDAYTEMPERATUREMAX = ''calendarDayTemperatureMax'',
     FIELD_FORECAST_CALENDARDAYTEMPERATUREMIN = ''calendarDayTemperatureMin'' \<rparr>"

section \<open>The field accessors\<close>

subsection \<open>\<^verbatim>\<open>get_condition\<close> of the three coordinator classes\<close>

text \<open>\<^verbatim>\<open>BaseWundergroundPWSCoordinator.get_condition\<close>: both branches read the first
  observation with \<^verbatim>\<open>.get\<close>.\<close>

definition base_get_condition :: "field_names \<Rightarrow> json \<Rightarrow> string \<Rightarrow> py_error + json" where
  "base_get_condition c data field =
     (if \<not> truthy data then Inr JNull
      else if field \<in> set [FIELD_CONDITION_HUMIDITY c, FIELD_CONDITION_WINDDIR c] then
        and_then (getitem_str data (FIELD_OBSERVATIONS c)) (\<lambda>observations.
        and_then (getitem_int observations 0) (\<lambda>observation.
        py_get observation field JNull))
      else
        and_then (getitem_str data (FIELD_OBSERVATIONS c)) (\<lambda>observations.
        and_then (getitem_int observations 0) (\<lambda>observation.
        py_get observation field JNull)))"

text \<open>\<^verbatim>\<open>WundergroundPWSUpdateCoordinator.get_condition\<close> (single station), which
  overrides the method of the base class: plain subscripts, and \<^verbatim>\<open>or 0\<close> on the two
  unit-less fields.\<close>

definition single_get_condition ::
    "field_names \<Rightarrow> string \<Rightarrow> json \<Rightarrow> string \<Rightarrow> py_error + json" where
  "single_get_condition c unit_system data field =
     (if field \<in> set [FIELD_CONDITION_HUMIDITY c, FIELD_CONDITION_WINDDIR c] then
        and_then (getitem_str data (FIELD_OBSERVATIONS c)) (\<lambda>observations.
        and_then (getitem_int observations 0) (\<lambda>observation.
        and_then (getitem_str observation field) (\<lambda>v.
        Inr (if truthy v then v else JInt 0))))
      else
        and_then (getitem_str data (FIELD_OBSERVATIONS c)) (\<lambda>observations.
        and_then (getitem_int observations 0) (\<lambda>observation.
        and_then (getitem_str observation unit_system) (\<lambda>units.
        getitem_str units field))))"

text \<open>The list \<^verbatim>\<open>unit_less_fields\<close> of \<^verbatim>\<open>MultiStationUpdateCoordinator.get_condition\<close>.\<close>

definition unit_less_fields :: "string list" where
  "unit_less_fields =
     [''humidity'', ''winddir'', ''solarRadiation'', ''uv'', ''stationID'', ''neighborhood'',
      ''obsTimeLocal'', ''obsTimeUtc'', ''softwareType'', ''country'', ''lon'', ''lat'',
      ''realtimeFrequency'', ''epoch'', ''qcStatus'', ''windDirectionCardinal'']"

text \<open>\<^verbatim>\<open>MultiStationUpdateCoordinator.get_condition\<close>: guarded reads, the unit-less list,
  the sub-record of the unit system, and the fallback to the observation itself.\<close>

definition multi_get_condition ::
    "field_names \<Rightarrow> string \<Rightarrow> json \<Rightarrow> string \<Rightarrow> py_error + json" where
  "multi_get_condition c unit_system data field =
     (if \<not> truthy data then Inr JNull else
      and_then (contains (FIELD_OBSERVATIONS c) data) (\<lambda>present.
      if \<not> present then Inr JNull else
      and_then (getitem_str data (FIELD_OBSERVATIONS c)) (\<lambda>observations.
      if \<not> truthy observations then Inr JNull else
      and_then (py_len observations) (\<lambda>n.
      if n = 0 then Inr JNull else
      and_then (getitem_int observations 0) (\<lambda>observation.
      if field \<in> set unit_less_fields then py_get observation field JNull else
      and_then (py_get observation unit_system (JObj [])) (\<lambda>metric_data.
      if truthy metric_data then
        and_then (contains field metric_data) (\<lambda>inside.
        if inside then py_get metric_data field JNull
        else py_get observation field JNull)
      else py_get observation field JNull))))))"

subsection \<open>\<^verbatim>\<open>get_forecast\<close>\<close>

text \<open>
  \<^verbatim>\<open>int(period / 2)\<close> on a Python integer.  The true division yields the double nearest
  to the exact quotient (ties to even), or raises \<^verbatim>\<open>OverflowError\<close> when that double
  would not be finite; \<^verbatim>\<open>int\<close> then truncates towards zero.  \<open>round_half_even_53 a\<close> is
  the natural number nearest to \<open>a\<close> that has at most 53 significant bits.
\<close>

definition round_half_even_53 :: "nat \<Rightarrow> nat" where
  "round_half_even_53 a =
     (let n = nat (bitlen (int a)) in
      if n \<le> 53 then a
      else
        let s = n - 53; m = a div 2 ^ s; r = a mod 2 ^ s; h = 2 ^ (s - 1);
            m' = (if h < r \<or> (r = h \<and> odd m) then m + 1 else m)
        in m' * 2 ^ s)"

definition int_half :: "int \<Rightarrow> py_error + int" where
  "int_half period =
     (let a = round_half_even_53 (nat \<bar>period\<bar>)
      in if 2 ^ 1025 \<le> a then Inl OverflowError else Inr (sgn period * int (a div 2)))"

text \<open>The fields \<^verbatim>\<open>get_forecast\<close> lists as existing per day rather than per day part.\<close>

definition full_day_fields :: "field_names \<Rightarrow> string list" where
  "full_day_fields c =
     [FIELD_FORECAST_TEMPERATUREMAX c, FIELD_FORECAST_TEMPERATUREMIN c,
      FIELD_FORECAST_CALENDARDAYTEMPERATUREMAX c, FIELD_FORECAST_CALENDARDAYTEMPERATUREMIN c,
      FIELD_FORECAST_VALIDTIMEUTC c]"

text \<open>The body of the \<^verbatim>\<open>try\<close> block of \<^verbatim>\<open>get_forecast\<close>.  Python evaluates
  \<^verbatim>\<open>self.data[field]\<close> before the index expression.\<close>

definition get_forecast_try :: "field_names \<Rightarrow> json \<Rightarrow> string \<Rightarrow> int \<Rightarrow> py_error + json" where
  "get_forecast_try c data field period =
     (if \<not> truthy data then Inr JNull
      else if field \<in> set (full_day_fields c) then
        and_then (getitem_str data field) (\<lambda>days.
        and_then (int_half period) (\<lambda>i.
        getitem_int days i))
      else
        and_then (getitem_str data (FIELD_DAYPART c)) (\<lambda>dayparts.
        and_then (getitem_int dayparts 0) (\<lambda>daypart.
        and_then (getitem_str daypart field) (\<lambda>vals.
        getitem_int vals period))))"

text \<open>\<^verbatim>\<open>except (IndexError, TypeError, KeyError): return None\<close>; any other exception
  leaves the method.\<close>

definition get_forecast :: "field_names \<Rightarrow> json \<Rightarrow> string \<Rightarrow> int \<Rightarrow> py_error + json" where
  "get_forecast c data field period =
     (case get_forecast_try c data field period of
        Inr v \<Rightarrow> Inr v
      | Inl e \<Rightarrow> if e \<in> set [IndexError, TypeError, KeyError] then Inr JNull else Inl e)"

text \<open>For stating what an accessor returns: the value read, or \<^verbatim>\<open>None\<close> when the read
  raises.\<close>

definition or_none :: "py_error + json \<Rightarrow> json" where
  "or_none r = (case r of Inl e \<Rightarrow> JNull | Inr v \<Rightarrow> v)"

text \<open>The exceptions the handler of \<^verbatim>\<open>get_forecast\<close> names.\<close>

definition lookup_error :: "py_error \<Rightarrow> bool" where
  "lookup_error e = (e \<in> set [IndexError, TypeError, KeyError])"

section \<open>Request construction\<close>

text \<open>Decimal rendering of an integer, as \<^verbatim>\<open>str\<close> and f-strings produce it.\<close>

function str_nat :: "nat \<Rightarrow> string" where
  "str_nat n = (if n < 10 then [''0123456789'' ! n] else str_nat (n div 10) @ [''0123456789'' ! (n mod 10)])"
  by pat_completeness auto
termination
  by (relation "measure (\<lambda>n. n)") auto

definition str_int :: "int \<Rightarrow> string" where
  "str_int i = (if i < 0 then CHR ''-'' # str_nat (nat (- i)) else str_nat (nat i))"

text \<open>\<^verbatim>\<open>str(v)\<close>, which \<^verbatim>\<open>str.format\<close> applies to a value it interpolates.  The text of a
  float or of a container is left to the parameter \<open>repr\<close>.\<close>

definition py_str :: "(json \<Rightarrow> string) \<Rightarrow> json \<Rightarrow> string" where
  "py_str repr v =
     (case v of
        JStr s \<Rightarrow> s
      | JNull \<Rightarrow> ''None''
      | JBool b \<Rightarrow> (if b then ''True'' else ''False'')
      | JInt i \<Rightarrow> str_int i
      | JFloat r \<Rightarrow> repr v
      | JArr xs \<Rightarrow> repr v
      | JObj kvs \<Rightarrow> repr v)"

text \<open>
  \<^verbatim>\<open>template.format(**kw)\<close> for the replacement fields the program's templates use:
  \<^verbatim>\<open>{name}\<close> is replaced by the text of the keyword argument \<open>name\<close> (\<^verbatim>\<open>KeyError\<close> when
  there is none; the text put in is not scanned again), \<^verbatim>\<open>{{\<close> and \<^verbatim>\<open>}}\<close> stand for a
  brace, a lone brace is a \<^verbatim>\<open>ValueError\<close>, and an empty or numeric name asks for a
  positional argument, of which there is none (\<^verbatim>\<open>IndexError\<close>).  The templates of the
  program hold no conversion, format specification, attribute or index in a field; the
  model refuses such a field with a \<^verbatim>\<open>ValueError\<close>.
\<close>

fun split_field :: "string \<Rightarrow> (string \<times> string) option" where
  "split_field [] = None"
| "split_field (c # cs) =
     (if c = CHR ''}'' then Some ([], cs)
      else (case split_field cs of None \<Rightarrow> None | Some (n, r) \<Rightarrow> Some (c # n, r)))"

definition plain_field :: "string \<Rightarrow> bool" where
  "plain_field n = (set n \<inter> set ''{!:.['' = {})"

definition positional_field :: "string \<Rightarrow> bool" where
  "positional_field n = (set n \<subseteq> set ''0123456789'')"

function (sequential) py_format :: "string \<Rightarrow> (string \<times> string) list \<Rightarrow> py_error + string" where
  "py_format [] kw = Inr []"
| "py_format (c # cs) kw =
     (if c = CHR ''{'' then
        (if cs \<noteq> [] \<and> hd cs = CHR ''{'' then
           and_then (py_format (tl cs) kw) (\<lambda>r. Inr (CHR ''{'' # r))
         else
           (case split_field cs of
              None \<Rightarrow> Inl (ValueError ''expected } before end of string'')
            | Some (n, rest) \<Rightarrow>
                if \<not> plain_field n then Inl (ValueError ''unsupported replacement field'')
                else if positional_field n then Inl IndexError
                else
                  (case map_of kw n of
                     None \<Rightarrow> Inl KeyError
                   | Some v \<Rightarrow> and_then (py_format rest kw) (\<lambda>r. Inr (v @ r)))))
      else if c = CHR ''}'' then
        (if cs \<noteq> [] \<and> hd cs = CHR ''}'' then
           and_then (py_format (tl cs) kw) (\<lambda>r. Inr (CHR ''}'' # r))
         else Inl (ValueError ''Single } encountered in format string''))
      else and_then (py_format cs kw) (\<lambda>r. Inr (c # r)))"
  by pat_completeness auto

lemma split_field_shorter: "split_field cs = Some (n, r) \<Longrightarrow> length r < length cs"
  by (induction cs arbitrary: n r) (auto split: if_splits option.splits)

termination py_format
  by (relation "measure (\<lambda>(t, kw). length t)")
     (auto dest: split_field_shorter simp: less_Suc_eq intro: Suc_lessD)

text \<open>The URL templates of \<^verbatim>\<open>base_coordinator.py\<close>.\<close>

definition RESOURCESHARED :: string where
  "RESOURCESHARED = ''&format=json&apiKey={apiKey}&units={units}''"

definition RESOURCECURRENT :: string where
  "RESOURCECURRENT = ''https://api.weather.com/v2/pws/observations/current?stationId={stationId}''"

definition RESOURCEFORECAST :: string where
  "RESOURCEFORECAST = ''https://api.weather.com/v3/wx/forecast/daily/5day?geocode={latitude},{longitude}''"

section \<open>The multi-station coordinator\<close>

text \<open>\<^verbatim>\<open>StationConfig\<close>.\<close>

record station_config =
  pws_id :: string
  priority :: int
  name :: string

text \<open>The fields of \<^verbatim>\<open>MultiStationCoordinatorConfig\<close> that the modelled methods read.
  The coordinates are \<^verbatim>\<open>None\<close> or a string when they come from the options.\<close>

record coordinator_config =
  cfg_api_key :: string
  cfg_stations :: "station_config list"
  cfg_numeric_precision :: string
  cfg_unit_system_api :: string
  cfg_unit_system :: string
  cfg_lang :: string
  cfg_latitude :: json
  cfg_longitude :: json

text \<open>An entry of the cache \<^verbatim>\<open>_station_data\<close>: the keys \<^verbatim>\<open>'data'\<close> and \<^verbatim>\<open>'last_update'\<close>.\<close>

record cache_entry =
  entry_data :: json
  last_update :: rat

text \<open>
  The attributes of a \<^verbatim>\<open>MultiStationUpdateCoordinator\<close>.  \<open>data\<close> is the attribute
  \<^verbatim>\<open>self.data\<close> of the update coordinator, \<^verbatim>\<open>None\<close> until it is assigned.  \<open>requests\<close>
  counts the HTTP requests issued so far; it is not an attribute of the class but the
  position in the sequence of answers of the network.
\<close>

record coordinator =
  api_key :: string
  unit_system_api :: string
  lang :: string
  numeric_precision :: string
  unit_system :: string
  latitude :: json
  longitude :: json
  stations :: "station_config list"
  station_data :: "string \<rightharpoonup> cache_entry"
  active_station :: "station_config option"
  data :: json
  requests :: nat

text \<open>\<^verbatim>\<open>__init__\<close>: the stations are sorted by priority; \<^verbatim>\<open>sorted\<close> is stable, as
  \<open>sort_key\<close> is.\<close>

definition multi_init :: "coordinator_config \<Rightarrow> coordinator" where
  "multi_init config =
     \<lparr> api_key = cfg_api_key config,
       unit_system_api = cfg_unit_system_api config,
       lang = cfg_lang config,
       numeric_precision = cfg_numeric_precision config,
       unit_system = cfg_unit_system config,
       latitude = cfg_latitude config,
       longitude = cfg_longitude config,
       stations = sort_key priority (cfg_stations config),
       station_data = Map.empty,
       active_station = None,
       data = JNull,
       requests = 0 \<rparr>"

text \<open>
  What the coordinator does not decide: the answer of the HTTP session to its \<open>n\<close>-th
  request, the clock of the event loop at the \<open>k\<close>-th cache write of a cycle, the text
  Python prints for a float or a container, and the constants of \<^verbatim>\<open>const.py\<close>.
  An \<open>http_result\<close> is either no response at all (the session or the timeout raises)
  or a response with its status, its text and what \<^verbatim>\<open>response.json()\<close> returns
  (\<open>None\<close> when that call raises).
\<close>

datatype http_result =
    NoResponse
  | Response int string "json option"

record environment =
  names :: field_names
  session_get :: "nat \<Rightarrow> string \<Rightarrow> http_result"
  loop_time :: "nat \<Rightarrow> rat"
  py_repr :: "json \<Rightarrow> string"

text \<open>\<^verbatim>\<open>MultiStationUpdateCoordinator._build_url\<close>.\<close>

definition build_url :: "environment \<Rightarrow> coordinator \<Rightarrow> string \<Rightarrow> string \<Rightarrow> py_error + string" where
  "build_url env st baseurl station_id =
     (let b1 = (if baseurl = RESOURCECURRENT then
                  (if numeric_precision st \<noteq> ''none''
                   then baseurl @ ''&numericPrecision={numericPrecision}'' else baseurl)
                else if baseurl = RESOURCEFORECAST then baseurl @ ''&language={language}''
                else baseurl);
          b2 = b1 @ RESOURCESHARED
      in py_format b2
           [(''apiKey'', api_key st),
            (''language'', lang st),
            (''latitude'', py_str (py_repr env) (latitude st)),
            (''longitude'', py_str (py_repr env) (longitude st)),
            (''numericPrecision'', numeric_precision st),
            (''stationId'', station_id),
            (''units'', unit_system_api st)])"

text \<open>\<^verbatim>\<open>sep.join(items)\<close>: every item must be a string.\<close>

fun join :: "string \<Rightarrow> string list \<Rightarrow> string" where
  "join sep [] = []"
| "join sep [x] = x"
| "join sep (x # y # ys) = x @ sep @ join sep (y # ys)"

fun str_items :: "json list \<Rightarrow> py_error + string list" where
  "str_items [] = Inr []"
| "str_items (JStr s # xs) = and_then (str_items xs) (\<lambda>r. Inr (s # r))"
| "str_items (x # xs) = Inl TypeError"

text \<open>Iteration over a value: the elements of a list, the characters of a string, the
  keys of a dictionary.\<close>

fun py_iter :: "json \<Rightarrow> py_error + json list" where
  "py_iter (JArr xs) = Inr xs"
| "py_iter (JStr s) = Inr (map (\<lambda>ch. JStr [ch]) s)"
| "py_iter (JObj kvs) = Inr (map (\<lambda>kv. JStr (fst kv)) kvs)"
| "py_iter JNull = Inl TypeError"
| "py_iter (JBool b) = Inl TypeError"
| "py_iter (JInt i) = Inl TypeError"
| "py_iter (JFloat r) = Inl TypeError"

text \<open>\<^verbatim>\<open>[e['message'] for e in errors]\<close>.\<close>

fun error_messages :: "json list \<Rightarrow> py_error + json list" where
  "error_messages [] = Inr []"
| "error_messages (e # es) =
     and_then (getitem_str e ''message'') (\<lambda>m.
     and_then (error_messages es) (\<lambda>ms. Inr (m # ms)))"

text \<open>
  \<^verbatim>\<open>_check_errors\<close>.  In the source the f-string \<^verbatim>\<open>f'Error from {url}: '\<close> and the
  literal \<^verbatim>\<open>'; '\<close> are adjacent, so Python concatenates them before \<^verbatim>\<open>.join\<close> is
  applied: the separator of the messages is \<^verbatim>\<open>Error from <url>: ; \<close>.
\<close>

definition check_errors :: "string \<Rightarrow> json \<Rightarrow> py_error + unit" where
  "check_errors url response =
     and_then (contains ''errors'' response) (\<lambda>present.
     if \<not> present then Inr () else
     and_then (getitem_str response ''errors'') (\<lambda>errors.
     if truthy errors then
       and_then (py_iter errors) (\<lambda>es.
       and_then (error_messages es) (\<lambda>ms.
       and_then (str_items ms) (\<lambda>ss.
       Inl (ValueError (join (''Error from '' @ url @ '': ; '') ss)))))
     else Inr ()))"

text \<open>\<^verbatim>\<open>await self._session.get(url)\<close>, the status check and \<^verbatim>\<open>await response.json()\<close>,
  as both requests of \<^verbatim>\<open>_fetch_station_data\<close> do them.\<close>

definition request_json :: "environment \<Rightarrow> nat \<Rightarrow> string \<Rightarrow> py_error + json" where
  "request_json env n url =
     (case session_get env n url of
        NoResponse \<Rightarrow> Inl ClientError
      | Response status body_text parsed \<Rightarrow>
          if status \<noteq> 200 then Inl (ValueError (''HTTP '' @ str_int status @ '': '' @ body_text))
          else (case parsed of None \<Rightarrow> Inl ClientError | Some result \<Rightarrow> Inr result))"

text \<open>The checks of \<^verbatim>\<open>_fetch_station_data\<close> on the current-conditions payload: not
  \<^verbatim>\<open>None\<close>, observations present and not empty, no API errors.\<close>

definition check_current :: "field_names \<Rightarrow> string \<Rightarrow> json \<Rightarrow> py_error + unit" where
  "check_current c url result_current =
     (if result_current = JNull then Inl (ValueError ''NO CURRENT RESULT - API returned null'')
      else
        and_then (contains (FIELD_OBSERVATIONS c) result_current) (\<lambda>present.
        if \<not> present then Inl (ValueError ''NO OBSERVATIONS DATA - Station may be offline'')
        else
          and_then (getitem_str result_current (FIELD_OBSERVATIONS c)) (\<lambda>observations.
          if \<not> truthy observations
          then Inl (ValueError ''NO OBSERVATIONS DATA - Station may be offline'')
          else check_errors url result_current)))"

text \<open>\<^verbatim>\<open>result_current[FIELD_OBSERVATIONS][0][key]\<close>.\<close>

definition first_observation_field :: "field_names \<Rightarrow> json \<Rightarrow> string \<Rightarrow> py_error + json" where
  "first_observation_field c result_current key =
     and_then (getitem_str result_current (FIELD_OBSERVATIONS c)) (\<lambda>observations.
     and_then (getitem_int observations 0) (\<lambda>observation.
     getitem_str observation key))"

text \<open>\<^verbatim>\<open>if not self._longitude: self._longitude = ...\<close> and the same for the latitude.\<close>

definition learn_longitude :: "field_names \<Rightarrow> json \<Rightarrow> coordinator \<Rightarrow> coordinator \<times> (py_error + unit)" where
  "learn_longitude c result_current st =
     (if \<not> truthy (longitude st) then
        (case first_observation_field c result_current (FIELD_LONGITUDE c) of
           Inl e \<Rightarrow> (st, Inl e)
         | Inr v \<Rightarrow> (st\<lparr>longitude := v\<rparr>, Inr ()))
      else (st, Inr ()))"

definition learn_latitude :: "field_names \<Rightarrow> json \<Rightarrow> coordinator \<Rightarrow> coordinator \<times> (py_error + unit)" where
  "learn_latitude c result_current st =
     (if \<not> truthy (latitude st) then
        (case first_observation_field c result_current (FIELD_LATITUDE c) of
           Inl e \<Rightarrow> (st, Inl e)
         | Inr v \<Rightarrow> (st\<lparr>latitude := v\<rparr>, Inr ()))
      else (st, Inr ()))"

text \<open>The checks on the forecast payload: not \<^verbatim>\<open>None\<close>; a missing or empty
  \<^verbatim>\<open>daypart\<close> is only logged, but the test itself can raise; no API errors.\<close>

definition check_forecast :: "string \<Rightarrow> json \<Rightarrow> py_error + unit" where
  "check_forecast url result_forecast =
     (if result_forecast = JNull then Inl (ValueError ''NO FORECAST RESULT - API returned null'')
      else
        and_then (contains ''daypart'' result_forecast) (\<lambda>present.
        and_then (if present then getitem_str result_forecast ''daypart'' else Inr JNull) (\<lambda>logged.
        check_errors url result_forecast)))"

text \<open>\<^verbatim>\<open>{**a, **b}\<close>: the keys of \<open>a\<close> in their order, with the values of \<open>b\<close> where \<open>b\<close>
  has the key, then the keys only \<open>b\<close> has.  Both operands must be mappings.\<close>

definition dict_merge :: "(string \<times> json) list \<Rightarrow> (string \<times> json) list \<Rightarrow> (string \<times> json) list" where
  "dict_merge a b =
     map (\<lambda>kv. (fst kv, case map_of b (fst kv) of None \<Rightarrow> snd kv | Some v \<Rightarrow> v)) a
     @ filter (\<lambda>kv. map_of a (fst kv) = None) b"

fun merge_results :: "json \<Rightarrow> json \<Rightarrow> py_error + json" where
  "merge_results (JObj a) (JObj b) = Inr (JObj (dict_merge a b))"
| "merge_results x y = Inl TypeError"

text \<open>The \<^verbatim>\<open>try\<close> block of \<^verbatim>\<open>_fetch_station_data\<close>, with the coordinator as it is when
  the block is left.\<close>

definition fetch_station_data_try ::
    "environment \<Rightarrow> station_config \<Rightarrow> coordinator \<Rightarrow> coordinator \<times> (py_error + json)" where
  "fetch_station_data_try env station st =
     (case build_url env st RESOURCECURRENT (pws_id station) of
        Inl e \<Rightarrow> (st, Inl e)
      | Inr url \<Rightarrow>
          let st1 = st\<lparr>requests := Suc (requests st)\<rparr> in
          (case and_then (request_json env (requests st) url) (\<lambda>rc.
                and_then (check_current (names env) url rc) (\<lambda>u. Inr rc)) of
             Inl e \<Rightarrow> (st1, Inl e)
           | Inr result_current \<Rightarrow>
               (case learn_longitude (names env) result_current st1 of
                  (st2, Inl e) \<Rightarrow> (st2, Inl e)
                | (st2, Inr u) \<Rightarrow>
                    (case learn_latitude (names env) result_current st2 of
                       (st3, Inl e) \<Rightarrow> (st3, Inl e)
                     | (st3, Inr u) \<Rightarrow>
                         (case build_url env st3 RESOURCEFORECAST (pws_id station) of
                            Inl e \<Rightarrow> (st3, Inl e)
                          | Inr furl \<Rightarrow>
                              (st3\<lparr>requests := Suc (requests st3)\<rparr>,
                               and_then (request_json env (requests st3) furl) (\<lambda>result_forecast.
                               and_then (check_forecast furl result_forecast) (\<lambda>u.
                               merge_results result_current result_forecast))))))))"

text \<open>\<^verbatim>\<open>_fetch_station_data\<close>: \<^verbatim>\<open>except Exception\<close> logs and returns \<^verbatim>\<open>None\<close>.  Every
  \<open>py_error\<close> is an \<^verbatim>\<open>Exception\<close>, so the handler takes them all.\<close>

definition fetch_station_data ::
    "environment \<Rightarrow> station_config \<Rightarrow> coordinator \<Rightarrow> coordinator \<times> (py_error + json)" where
  "fetch_station_data env station st =
     (case fetch_station_data_try env station st of
        (st1, Inl err) \<Rightarrow> (st1, Inr JNull)
      | (st1, Inr result) \<Rightarrow> (st1, Inr result))"

text \<open>The first loop of \<^verbatim>\<open>get_weather\<close>: every station is tried in the order of
  \<^verbatim>\<open>self._stations\<close>; a truthy result is appended to \<^verbatim>\<open>successful_stations\<close>, an
  exception removes the station from the cache.\<close>

fun fetch_all ::
    "environment \<Rightarrow> station_config list \<Rightarrow> coordinator \<Rightarrow> coordinator \<times> (station_config \<times> json) list" where
  "fetch_all env [] st = (st, [])"
| "fetch_all env (station # rest) st =
     (case fetch_station_data env station st of
        (st1, Inr doc) \<Rightarrow>
          (case fetch_all env rest st1 of
             (st2, successful) \<Rightarrow>
               (st2, if truthy doc then (station, doc) # successful else successful))
      | (st1, Inl err) \<Rightarrow>
          fetch_all env rest (st1\<lparr>station_data := (station_data st1)(pws_id station := None)\<rparr>))"

text \<open>The second loop: the cache entry of every successful station is replaced.\<close>

fun update_cache ::
    "(nat \<Rightarrow> rat) \<Rightarrow> nat \<Rightarrow> (station_config \<times> json) list \<Rightarrow> (string \<rightharpoonup> cache_entry) \<Rightarrow> (string \<rightharpoonup> cache_entry)" where
  "update_cache clock k [] m = m"
| "update_cache clock k (sd # rest) m =
     update_cache clock (Suc k) rest
       (m(pws_id (fst sd) \<mapsto> \<lparr>entry_data = snd sd, last_update = clock k\<rparr>))"

text \<open>\<^verbatim>\<open>get_weather\<close>: the coordinator after the cycle and the value returned
  (\<^verbatim>\<open>None\<close> when no station succeeded).\<close>

definition get_weather :: "environment \<Rightarrow> coordinator \<Rightarrow> coordinator \<times> json" where
  "get_weather env st =
     (case fetch_all env (stations st) st of
        (st1, successful) \<Rightarrow>
          (case successful of
             [] \<Rightarrow> (st1, JNull)
           | selected # others \<Rightarrow>
               (st1\<lparr>active_station := Some (fst selected),
                    station_data := update_cache (loop_time env) 0 successful (station_data st1),
                    data := snd selected\<rparr>,
                snd selected)))"

text \<open>The property \<^verbatim>\<open>station_status\<close>, one entry per station in the order of
  \<^verbatim>\<open>self._stations\<close>.\<close>

record station_report =
  report_name :: string
  report_priority :: int
  active :: bool
  report_last_update :: "rat option"
  status :: string

definition station_status :: "coordinator \<Rightarrow> (string \<times> station_report) list" where
  "station_status st =
     map (\<lambda>station.
            (pws_id station,
             \<lparr> report_name = name station,
               report_priority = priority station,
               active = (case active_station st of
                           None \<Rightarrow> False
                         | Some a \<Rightarrow> pws_id station = pws_id a),
               report_last_update = map_option last_update (station_data st (pws_id station)),
               status = (if station_data st (pws_id station) \<noteq> None then ''online'' else ''offline'') \<rparr>))
         (stations st)"

text \<open>\<^verbatim>\<open>_async_update_data\<close>: \<^verbatim>\<open>return await self.get_weather()\<close>.  \<^verbatim>\<open>get_weather\<close> has no
  way to raise one of the exceptions of the model.\<close>

definition async_update_data ::
    "environment \<Rightarrow> coordinator \<Rightarrow> coordinator \<times> (py_error + json)" where
  "async_update_data env st = (case get_weather env st of (st1, result) \<Rightarrow> (st1, Inr result))"

text \<open>
  Both coordinators are subclasses of Home Assistant's \<^verbatim>\<open>DataUpdateCoordinator\<close>
  (\<^verbatim>\<open>base_coordinator.py\<close> imports it from \<^verbatim>\<open>homeassistant.helpers.update_coordinator\<close>), a
  class of the library and not of the repository.  Its refresh, which
  \<^verbatim>\<open>async_config_entry_first_refresh\<close> and the update interval run, awaits
  \<^verbatim>\<open>_async_update_data\<close>: the value returned is assigned to \<^verbatim>\<open>self.data\<close> and
  \<^verbatim>\<open>last_update_success\<close> is set to \<^verbatim>\<open>True\<close>; when the call raises an exception,
  \<^verbatim>\<open>self.data\<close> is left as it is and \<^verbatim>\<open>last_update_success\<close> is set to \<^verbatim>\<open>False\<close>.
  \<open>async_refresh\<close> gives the coordinator after the refresh and \<^verbatim>\<open>last_update_success\<close>.
\<close>

definition async_refresh :: "environment \<Rightarrow> coordinator \<Rightarrow> coordinator \<times> bool" where
  "async_refresh env st =
     (case async_update_data env st of
        (st1, Inr result) \<Rightarrow> (st1\<lparr>data := result\<rparr>, True)
      | (st1, Inl err) \<Rightarrow> (st1, False))"

section \<open>The single-station coordinator\<close>

text \<open>The attributes of a \<^verbatim>\<open>WundergroundPWSUpdateCoordinator\<close> that \<^verbatim>\<open>get_weather\<close> and
  \<^verbatim>\<open>_build_url\<close> use, and the count of requests as above.\<close>

record single_coordinator =
  s_pws_id :: string
  s_api_key :: string
  s_unit_system_api :: string
  s_lang :: string
  s_numeric_precision :: string
  s_latitude :: json
  s_longitude :: json
  s_data :: json
  s_requests :: nat

text \<open>\<^verbatim>\<open>WundergroundPWSUpdateCoordinator._build_url\<close>: the station is the coordinator's own.\<close>

definition single_build_url ::
    "environment \<Rightarrow> single_coordinator \<Rightarrow> string \<Rightarrow> py_error + string" where
  "single_build_url env st baseurl =
     (let b1 = (if baseurl = RESOURCECURRENT then
                  (if s_numeric_precision st \<noteq> ''none''
                   then baseurl @ ''&numericPrecision={numericPrecision}'' else baseurl)
                else if baseurl = RESOURCEFORECAST then baseurl @ ''&language={language}''
                else baseurl);
          b2 = b1 @ RESOURCESHARED
      in py_format b2
           [(''apiKey'', s_api_key st),
            (''language'', s_lang st),
            (''latitude'', py_str (py_repr env) (s_latitude st)),
            (''longitude'', py_str (py_repr env) (s_longitude st)),
            (''numericPrecision'', s_numeric_precision st),
            (''stationId'', s_pws_id st),
            (''units'', s_unit_system_api st)])"

text \<open>\<^verbatim>\<open>await self._session.get(url)\<close> and \<^verbatim>\<open>await response.json()\<close> in the single-station
  \<^verbatim>\<open>get_weather\<close>: the status of the response is not looked at.\<close>

definition single_request_json :: "environment \<Rightarrow> nat \<Rightarrow> string \<Rightarrow> py_error + json" where
  "single_request_json env n url =
     (case session_get env n url of
        NoResponse \<Rightarrow> Inl ClientError
      | Response code body_text parsed \<Rightarrow>
          (case parsed of None \<Rightarrow> Inl ClientError | Some result \<Rightarrow> Inr result))"

definition single_learn_longitude ::
    "field_names \<Rightarrow> json \<Rightarrow> single_coordinator \<Rightarrow> single_coordinator \<times> (py_error + unit)" where
  "single_learn_longitude c result_current st =
     (if \<not> truthy (s_longitude st) then
        (case first_observation_field c result_current (FIELD_LONGITUDE c) of
           Inl e \<Rightarrow> (st, Inl e)
         | Inr v \<Rightarrow> (st\<lparr>s_longitude := v\<rparr>, Inr ()))
      else (st, Inr ()))"

definition single_learn_latitude ::
    "field_names \<Rightarrow> json \<Rightarrow> single_coordinator \<Rightarrow> single_coordinator \<times> (py_error + unit)" where
  "single_learn_latitude c result_current st =
     (if \<not> truthy (s_latitude st) then
        (case first_observation_field c result_current (FIELD_LATITUDE c) of
           Inl e \<Rightarrow> (st, Inl e)
         | Inr v \<Rightarrow> (st\<lparr>s_latitude := v\<rparr>, Inr ()))
      else (st, Inr ()))"

text \<open>The \<^verbatim>\<open>try\<close> block of the single-station \<^verbatim>\<open>get_weather\<close> up to the merged result.\<close>

definition single_get_weather_try ::
    "environment \<Rightarrow> single_coordinator \<Rightarrow> single_coordinator \<times> (py_error + json)" where
  "single_get_weather_try env st =
     (case single_build_url env st RESOURCECURRENT of
        Inl e \<Rightarrow> (st, Inl e)
      | Inr url \<Rightarrow>
          let st1 = st\<lparr>s_requests := Suc (s_requests st)\<rparr> in
          (case and_then (single_request_json env (s_requests st) url) (\<lambda>rc.
                and_then (if rc = JNull then Inl (ValueError ''NO CURRENT RESULT'')
                          else check_errors url rc) (\<lambda>u. Inr rc)) of
             Inl e \<Rightarrow> (st1, Inl e)
           | Inr result_current \<Rightarrow>
               (case single_learn_longitude (names env) result_current st1 of
                  (st2, Inl e) \<Rightarrow> (st2, Inl e)
                | (st2, Inr u) \<Rightarrow>
                    (case single_learn_latitude (names env) result_current st2 of
                       (st3, Inl e) \<Rightarrow> (st3, Inl e)
                     | (st3, Inr u) \<Rightarrow>
                         (case single_build_url env st3 RESOURCEFORECAST of
                            Inl e \<Rightarrow> (st3, Inl e)
                          | Inr furl \<Rightarrow>
                              (st3\<lparr>s_requests := Suc (s_requests st3)\<rparr>,
                               and_then (single_request_json env (s_requests st3) furl) (\<lambda>result_forecast.
                               and_then (if result_forecast = JNull
                                         then Inl (ValueError ''NO FORECAST RESULT'')
                                         else check_errors furl result_forecast) (\<lambda>u.
                               merge_results result_current result_forecast))))))))"

text \<open>
  The single-station \<^verbatim>\<open>get_weather\<close>: a result is stored in \<^verbatim>\<open>self.data\<close> and returned;
  \<^verbatim>\<open>except ValueError\<close> and \<^verbatim>\<open>except (asyncio.TimeoutError, aiohttp.ClientError)\<close> log and
  let the method return \<^verbatim>\<open>None\<close> (a JSON decoding error is a \<^verbatim>\<open>ValueError\<close>, so both
  handlers together take every \<open>ClientError\<close> of the model); any other exception leaves
  the method.
\<close>

definition single_get_weather ::
    "environment \<Rightarrow> single_coordinator \<Rightarrow> single_coordinator \<times> (py_error + json)" where
  "single_get_weather env st =
     (case single_get_weather_try env st of
        (st1, Inr result) \<Rightarrow> (st1\<lparr>s_data := result\<rparr>, Inr result)
      | (st1, Inl err) \<Rightarrow>
          (case err of
             ValueError msg \<Rightarrow> (st1, Inr JNull)
           | ClientError \<Rightarrow> (st1, Inr JNull)
           | _ \<Rightarrow> (st1, Inl err)))"

section \<open>Notions for stating the properties\<close>

text \<open>What a fetch leaves alone: the station list, the cache, the active station and the
  active document.\<close>

definition same_cache :: "coordinator \<Rightarrow> coordinator \<Rightarrow> bool" where
  "same_cache st st' =
     (stations st' = stations st \<and> station_data st' = station_data st
      \<and> active_station st' = active_station st \<and> data st' = data st)"

text \<open>
  The failure conditions that claim C6 lists, read on the answer to the
  current-conditions request: the status is not 200; the body cannot be parsed or is
  empty (\<^verbatim>\<open>null\<close>); the observations are absent or empty; the payload carries an error
  list.
\<close>

definition observations_missing :: "field_names \<Rightarrow> json \<Rightarrow> bool" where
  "observations_missing c body =
     (case body of
        JObj kvs \<Rightarrow>
          (case map_of kvs (FIELD_OBSERVATIONS c) of None \<Rightarrow> True | Some obs \<Rightarrow> \<not> truthy obs)
      | _ \<Rightarrow> True)"

definition carries_errors :: "json \<Rightarrow> bool" where
  "carries_errors body =
     (case body of
        JObj kvs \<Rightarrow> (case map_of kvs ''errors'' of None \<Rightarrow> False | Some errs \<Rightarrow> truthy errs)
      | _ \<Rightarrow> False)"

definition listed_failure :: "field_names \<Rightarrow> http_result \<Rightarrow> bool" where
  "listed_failure c r =
     (case r of
        NoResponse \<Rightarrow> False
      | Response code body_text parsed \<Rightarrow>
          code \<noteq> 200
          \<or> (case parsed of
                None \<Rightarrow> True
              | Some body \<Rightarrow> body = JNull \<or> observations_missing c body \<or> carries_errors body))"

section \<open>Example stations, documents and networks\<close>

text \<open>Two stations, configured with the lower priority value second; no coordinates in
  the configuration.\<close>

definition station_a :: station_config where
  "station_a = \<lparr>pws_id = ''KAAA1'', priority = 1, name = ''Garden''\<rparr>"

definition station_b :: station_config where
  "station_b = \<lparr>pws_id = ''KBBB2'', priority = 2, name = ''Harbour''\<rparr>"

definition example_config :: coordinator_config where
  "example_config =
     \<lparr> cfg_api_key = ''KEY'', cfg_stations = [station_b, station_a],
       cfg_numeric_precision = ''decimal'', cfg_unit_system_api = ''m'',
       cfg_unit_system = ''metric'', cfg_lang = ''en-US'',
       cfg_latitude = JNull, cfg_longitude = JNull \<rparr>"

text \<open>A current-conditions payload of a station at a given longitude and latitude.\<close>

definition current_doc :: "string \<Rightarrow> rat \<Rightarrow> rat \<Rightarrow> json" where
  "current_doc sid lon lat =
     JObj [(''observations'',
            JArr [JObj [(''stationID'', JStr sid), (''lon'', JFloat lon), (''lat'', JFloat lat),
                        (''humidity'', JInt 40), (''metric'', JObj [(''temp'', JInt 21)])]])]"

text \<open>A forecast payload with three days and six day parts.\<close>

definition forecast_example :: json where
  "forecast_example =
     JObj [(''temperatureMax'', JArr [JInt 10, JInt 20, JInt 30]),
           (''daypart'', JArr [JObj [(''temperature'',
               JArr [JInt 1, JInt 2, JInt 3, JInt 4, JInt 5, JInt 6])]])]"

text \<open>An environment whose network gives the \<open>n\<close>-th request the \<open>n\<close>-th answer,
  whatever the URL.\<close>

definition env_of :: "(nat \<Rightarrow> http_result) \<Rightarrow> environment" where
  "env_of answers =
     \<lparr> names = api_names, session_get = (\<lambda>n url. answers n),
       loop_time = (\<lambda>k. 0), py_repr = (\<lambda>v. ''?'') \<rparr>"

text \<open>Both stations answer (requests 0 and 2 are the current conditions of the two
  stations, requests 1 and 3 the forecasts).\<close>

definition both_answer :: "nat \<Rightarrow> http_result" where
  "both_answer n =
     (if n = 0 then Response 200 [] (Some (current_doc ''KAAA1'' 18 47))
      else if n = 2 then Response 200 [] (Some (current_doc ''KBBB2'' 19 48))
      else Response 200 [] (Some forecast_example))"

text \<open>The coordinator after a first cycle in which both stations answered.\<close>

definition after_first_cycle :: coordinator where
  "after_first_cycle = fst (get_weather (env_of both_answer) (multi_init example_config))"

text \<open>The coordinator after a first refresh in which both stations answered.\<close>

definition after_first_refresh :: coordinator where
  "after_first_refresh = fst (async_refresh (env_of both_answer) (multi_init example_config))"

text \<open>The station of priority 1 answers with HTTP 500 (its fetch ends after one request),
  the station of priority 2 answers.\<close>

definition first_down_answer :: "nat \<Rightarrow> http_result" where
  "first_down_answer n =
     (if n = 0 then Response 500 ''Internal Server Error'' None
      else if n = 1 then Response 200 [] (Some (current_doc ''KBBB2'' 19 48))
      else Response 200 [] (Some forecast_example))"

text \<open>The same in a second cycle, after the four requests of a first one.\<close>

definition later_first_down_answer :: "nat \<Rightarrow> http_result" where
  "later_first_down_answer n = first_down_answer (n - 4)"

text \<open>Every request is answered with HTTP 500.\<close>

definition all_down_answer :: "nat \<Rightarrow> http_result" where
  "all_down_answer n = Response 500 ''Internal Server Error'' None"

text \<open>The first station reports the longitude \<open>0.0\<close> (it stands on the prime meridian)
  and the latitude \<open>51.0\<close>, the second the longitude \<open>19.0\<close> and the latitude \<open>48.0\<close>.\<close>

definition meridian_answer :: "nat \<Rightarrow> http_result" where
  "meridian_answer n =
     (if n = 0 then Response 200 [] (Some (current_doc ''KAAA1'' 0 51))
      else if n = 2 then Response 200 [] (Some (current_doc ''KBBB2'' 19 48))
      else Response 200 [] (Some forecast_example))"



text \<open>A single-station coordinator without configured coordinates.\<close>

definition example_single :: single_coordinator where
  "example_single =
     \<lparr> s_pws_id = ''KAAA1'', s_api_key = ''KEY'', s_unit_system_api = ''m'', s_lang = ''en-US'',
       s_numeric_precision = ''decimal'', s_latitude = JNull, s_longitude = JNull,
       s_data = JNull, s_requests = 0 \<rparr>"

text \<open>Both requests are answered with HTTP 500 and a well-formed JSON body.\<close>

definition error_status_answer :: "nat \<Rightarrow> http_result" where
  "error_status_answer n =
     (if n = 0 then Response 500 ''Internal Server Error'' (Some (current_doc ''KAAA1'' 18 47))
      else Response 500 ''Internal Server Error'' (Some forecast_example))"

text \<open>The station reports the longitude \<open>0.0\<close> in a first cycle (requests 0 and 1) and
  the longitude \<open>19.0\<close> in a second one (requests 2 and 3).\<close>

definition drifting_answer :: "nat \<Rightarrow> http_result" where
  "drifting_answer n =
     (if n = 0 then Response 200 [] (Some (current_doc ''KAAA1'' 0 51))
      else if n = 2 then Response 200 [] (Some (current_doc ''KAAA1'' 19 48))
      else Response 200 [] (Some forecast_example))"

section \<open>Basic facts\<close>

declare str_nat.simps [simp del]

lemma and_then_Inl [simp]: "and_then (Inl e) f = Inl e"
  by (simp add: and_then_def)

lemma and_then_Inr [simp]: "and_then (Inr v) f = f v"
  by (simp add: and_then_def)

section \<open>Reading current conditions\<close>

text \<open>
  Claim C10.  In the single-station coordinator, when the active document holds a value
  \<open>v\<close> for the humidity or the wind-direction field in its first observation,
  \<^verbatim>\<open>get_condition\<close> returns \<open>0\<close> if \<open>v\<close> is \<^verbatim>\<open>None\<close> or any other falsy value, and \<open>v\<close>
  itself if \<open>v\<close> is truthy.
\<close>

theorem single_get_condition_or_zero:
  assumes "field \<in> set [FIELD_CONDITION_HUMIDITY c, FIELD_CONDITION_WINDDIR c]"
    and "first_observation_field c doc field = Inr v"
  shows "single_get_condition c usys doc field = Inr (if truthy v then v else JInt 0)"
proof -
  from assms(2) obtain observations observation where
    "getitem_str doc (FIELD_OBSERVATIONS c) = Inr observations"
    "getitem_int observations 0 = Inr observation"
    "getitem_str observation field = Inr v"
    unfolding first_observation_field_def and_then_def
    by (auto split: sum.splits)
  with assms(1) show ?thesis
    by (simp add: single_get_condition_def)
qed

text \<open>Witness for C10: a stored humidity of \<^verbatim>\<open>None\<close> is read as \<open>0\<close>, a stored wind
  direction of \<open>270\<close> is read unchanged.\<close>

theorem single_get_condition_or_zero_witness:
  "first_observation_field api_names
       (JObj [(''observations'', JArr [JObj [(''humidity'', JNull), (''winddir'', JInt 270)]])])
       ''humidity'' = Inr JNull
   \<and> single_get_condition api_names ''metric''
       (JObj [(''observations'', JArr [JObj [(''humidity'', JNull), (''winddir'', JInt 270)]])])
       ''humidity'' = Inr (JInt 0)
   \<and> single_get_condition api_names ''metric''
       (JObj [(''observations'', JArr [JObj [(''humidity'', JNull), (''winddir'', JInt 270)]])])
       ''winddir'' = Inr (JInt 270)"
proof -
  let ?doc = "JObj [(''observations'', JArr [JObj [(''humidity'', JNull), (''winddir'', JInt 270)]])]"
  have h: "first_observation_field api_names ?doc ''humidity'' = Inr JNull"
    by (simp add: first_observation_field_def api_names_def list_index_def)
  have w: "first_observation_field api_names ?doc ''winddir'' = Inr (JInt 270)"
    by (simp add: first_observation_field_def api_names_def list_index_def)
  have m1: "''humidity'' \<in> set [FIELD_CONDITION_HUMIDITY api_names, FIELD_CONDITION_WINDDIR api_names]"
    by (simp add: api_names_def)
  have m2: "''winddir'' \<in> set [FIELD_CONDITION_HUMIDITY api_names, FIELD_CONDITION_WINDDIR api_names]"
    by (simp add: api_names_def)
  show ?thesis
    using h single_get_condition_or_zero [OF m1 h, of "''metric''"]
      single_get_condition_or_zero [OF m2 w, of "''metric''"]
    by simp
qed

text \<open>The guarded accessors of the base class and of the multi-station coordinator
  return \<^verbatim>\<open>None\<close> when there is no active document.\<close>

lemma base_get_condition_absent: "base_get_condition c JNull field = Inr JNull"
  by (simp add: base_get_condition_def)

lemma multi_get_condition_absent: "multi_get_condition c usys JNull field = Inr JNull"
  by (simp add: multi_get_condition_def)

text \<open>The accessor of the base class reads every field from the first observation; the
  single-station override looks for every field but humidity and wind direction in the
  unit sub-record, the station id included.\<close>

lemma base_get_condition_reads:
  assumes "map_of doc (FIELD_OBSERVATIONS c) = Some (JArr (JObj obs # others))"
  shows "base_get_condition c (JObj doc) field
           = Inr (case map_of obs field of None \<Rightarrow> JNull | Some v \<Rightarrow> v)"
proof -
  from assms have "doc \<noteq> []" by auto
  with assms show ?thesis
    by (simp add: base_get_condition_def list_index_def)
qed

lemma single_get_condition_station_id:
  "single_get_condition api_names ''metric''
     (JObj [(''observations'',
             JArr [JObj [(''stationID'', JStr ''KXX1''), (''humidity'', JInt 40),
                         (''metric'', JObj [(''temp'', JInt 21)])]])])
     ''stationID'' = Inl KeyError"
  by (simp add: single_get_condition_def api_names_def list_index_def)

text \<open>
  Claim C4 says that \<^verbatim>\<open>get_condition\<close> never raises when there is no active document or
  the field is missing.  The single-station coordinator overrides the guarded method of
  its base class with plain subscripts: with no active document it raises \<^verbatim>\<open>TypeError\<close>
  for every field, and with a document whose unit sub-record lacks the field it raises
  \<^verbatim>\<open>KeyError\<close>.
\<close>

theorem single_get_condition_raises:
  "single_get_condition c usys JNull field = Inl TypeError
   \<and> single_get_condition api_names ''metric''
        (JObj [(''observations'', JArr [JObj [(''metric'', JObj [(''temp'', JInt 21)])]])])
        ''dewpt'' = Inl KeyError"
  by (simp add: single_get_condition_def api_names_def list_index_def)

text \<open>
  Claim C8, as amended.  On a document whose observations are a list that starts with a
  record, and whose unit sub-record is absent, falsy or a record, the multi-station
  \<^verbatim>\<open>get_condition\<close> reads a field of its unit-less list from the first observation; it
  reads any other field from the sub-record of the configured unit system when that
  sub-record holds the field, and otherwise falls back to the first observation itself.
  A field found nowhere is \<^verbatim>\<open>None\<close>.
\<close>

theorem multi_get_condition_reads:
  assumes "map_of doc (FIELD_OBSERVATIONS c) = Some (JArr (JObj obs # others))"
    and "case map_of obs usys of
           None \<Rightarrow> True
         | Some x \<Rightarrow> (\<exists>sub. x = JObj sub) \<or> \<not> truthy x"
  shows "multi_get_condition c usys (JObj doc) field =
     Inr (if field \<in> set unit_less_fields
          then (case map_of obs field of None \<Rightarrow> JNull | Some v \<Rightarrow> v)
          else (case map_of obs usys of
                  Some (JObj sub) \<Rightarrow>
                    (case map_of sub field of
                       Some v \<Rightarrow> v
                     | None \<Rightarrow> (case map_of obs field of None \<Rightarrow> JNull | Some v \<Rightarrow> v))
                | _ \<Rightarrow> (case map_of obs field of None \<Rightarrow> JNull | Some v \<Rightarrow> v)))"
proof -
  from assms(1) have ne: "doc \<noteq> []" by auto
  show ?thesis
  proof (cases "map_of obs usys")
    case None
    with assms(1) ne show ?thesis
      by (simp add: multi_get_condition_def list_index_def)
  next
    case (Some x)
    with assms(2) consider sub where "x = JObj sub" | "\<not> truthy x" "\<forall>sub. x \<noteq> JObj sub"
      by auto
    then show ?thesis
    proof cases
      case 1
      with Some assms(1) ne show ?thesis
        by (auto simp add: multi_get_condition_def list_index_def split: option.splits)
    next
      case 2
      with Some assms(1) ne show ?thesis
        by (cases x) (simp_all add: multi_get_condition_def list_index_def)
    qed
  qed
qed

text \<open>Witness for C8: a unit-bearing field comes from the \<^verbatim>\<open>metric\<close> sub-record, a
  unit-less field from the observation.\<close>

theorem multi_get_condition_reads_witness:
  "multi_get_condition api_names ''metric''
     (JObj [(''observations'',
             JArr [JObj [(''humidity'', JInt 40), (''metric'', JObj [(''temp'', JInt 21)])]])])
     ''temp'' = Inr (JInt 21)
   \<and> multi_get_condition api_names ''metric''
     (JObj [(''observations'',
             JArr [JObj [(''humidity'', JInt 40), (''metric'', JObj [(''temp'', JInt 21)])]])])
     ''humidity'' = Inr (JInt 40)"
proof -
  let ?obs = "[(''humidity'', JInt 40), (''metric'', JObj [(''temp'', JInt 21)])]"
  let ?doc = "[(''observations'', JArr [JObj ?obs])]"
  have a: "map_of ?doc (FIELD_OBSERVATIONS api_names) = Some (JArr (JObj ?obs # []))"
    by (simp add: api_names_def)
  have b: "case map_of ?obs ''metric'' of
             None \<Rightarrow> True
           | Some x \<Rightarrow> (\<exists>sub. x = JObj sub) \<or> \<not> truthy x"
    by simp
  show ?thesis
    using multi_get_condition_reads [OF a b, of "''temp''"]
      multi_get_condition_reads [OF a b, of "''humidity''"]
    by (simp add: unit_less_fields_def)
qed

text \<open>
  Counterexample to C8 as stated: the field \<^verbatim>\<open>elev\<close> is not in the unit-less list and
  the \<^verbatim>\<open>metric\<close> sub-record does not hold it, yet \<^verbatim>\<open>get_condition\<close> returns the value
  stored in the observation itself (the fallback of the last line of the method), so a
  field that is not unit-less is read from somewhere else than the sub-record.
\<close>

theorem multi_get_condition_fallback_counterexample:
  "multi_get_condition api_names ''metric''
     (JObj [(''observations'',
             JArr [JObj [(''stationID'', JStr ''KXX1''), (''elev'', JInt 5),
                         (''metric'', JObj [(''temp'', JInt 21)])]])])
     ''elev'' = Inr (JInt 5)
   \<and> ''elev'' \<notin> set unit_less_fields
   \<and> getitem_str (JObj [(''temp'', JInt 21)]) ''elev'' = Inl KeyError"
  by (simp add: multi_get_condition_def api_names_def list_index_def unit_less_fields_def)

section \<open>Reading the forecast\<close>

text \<open>Below \<open>2 ^ 53\<close> every integer is a double, the division by two is exact, and
  \<^verbatim>\<open>int\<close> truncates towards zero.\<close>

lemma round_half_even_53_small: "a < 2 ^ 53 \<Longrightarrow> round_half_even_53 a = a"
  using bitlen_le_iff_power [of "int a" 53]
  by (simp add: round_half_even_53_def Let_def nat_le_iff)

lemma float_range: "(2::nat) ^ 53 \<le> 2 ^ 1025"
  by (rule power_increasing) simp_all

lemma int_half_small:
  assumes "\<bar>p\<bar> < 2 ^ 53"
  shows "int_half p = Inr (sgn p * (\<bar>p\<bar> div 2))"
proof -
  from assms have a: "nat \<bar>p\<bar> < 2 ^ 53"
    by (simp add: nat_less_iff)
  then have r: "round_half_even_53 (nat \<bar>p\<bar>) = nat \<bar>p\<bar>"
    by (rule round_half_even_53_small)
  from a float_range have n: "\<not> 2 ^ 1025 \<le> nat \<bar>p\<bar>"
    by linarith
  have d: "int (nat \<bar>p\<bar> div 2) = \<bar>p\<bar> div 2"
    by (simp add: zdiv_int)
  show ?thesis
    unfolding int_half_def Let_def r using n d by (simp only: if_False)
qed

lemma int_half_nonneg:
  assumes "0 \<le> p" and "p < 2 ^ 53"
  shows "int_half p = Inr (p div 2)"
proof -
  from assms have "\<bar>p\<bar> < 2 ^ 53" by simp
  from int_half_small [OF this] assms(1) show ?thesis
    by (cases "p = 0") (simp_all add: sgn_if)
qed

lemma int_half_minus_one: "int_half (- 1) = Inr 0"
  using int_half_small [of "- 1"] by simp

lemma int_half_minus_two: "int_half (- 2) = Inr (- 1)"
  using int_half_small [of "- 2"] by simp

text \<open>A power of two is a double as long as it is finite; the quotient of \<open>2 ^ 1025\<close>
  by two is not.\<close>

lemma round_half_even_53_pow2: "round_half_even_53 (2 ^ k) = 2 ^ k"
proof (cases "k < 53")
  case True
  have "bitlen (2 ^ k) = int k + 1"
    using bitlen_pow2 [of 1 k] by (simp add: bitlen_alt_def)
  with True show ?thesis
    by (simp add: round_half_even_53_def Let_def)
next
  case False
  define s where "s = k - 52"
  from False have k: "k = 52 + s" and s: "0 < s"
    by (simp_all add: s_def)
  have b: "nat (bitlen (int (2 ^ k))) = 53 + s"
    using bitlen_pow2 [of 1 k] by (simp add: bitlen_alt_def k)
  have d: "(2::nat) ^ k div 2 ^ s = 2 ^ 52"
    by (simp only: k power_add) simp
  have m: "(2::nat) ^ k mod 2 ^ s = 0"
    by (simp only: k power_add) simp
  have e: "(2::nat) ^ 52 * 2 ^ s = 2 ^ k"
    by (simp only: k power_add)
  from s have h: "(0::nat) < 2 ^ (s - 1)"
    by simp
  have x: "53 + s - 53 = s"
    by simp
  show ?thesis
    unfolding round_half_even_53_def Let_def b x
    using s h e by (simp only: d m) simp
qed

lemma int_half_overflow: "int_half (2 ^ 1025) = Inl OverflowError"
proof -
  have "nat \<bar>2 ^ 1025 :: int\<bar> = 2 ^ 1025"
    by simp
  then show ?thesis
    by (simp only: int_half_def Let_def round_half_even_53_pow2) simp
qed

text \<open>Subscripts raise nothing but what the handler of \<^verbatim>\<open>get_forecast\<close> catches.\<close>

lemma getitem_str_error: "getitem_str x k = Inl e \<Longrightarrow> lookup_error e"
  by (cases x) (auto simp: lookup_error_def split: option.splits)

lemma list_index_error: "list_index xs i = Inl e \<Longrightarrow> lookup_error e"
  by (auto simp: list_index_def lookup_error_def split: if_splits)

lemma getitem_int_error: "getitem_int x i = Inl e \<Longrightarrow> lookup_error e"
  by (cases x) (auto simp: lookup_error_def dest: list_index_error split: sum.splits)

lemma and_then_error:
  assumes "and_then r f = Inl e"
    and "\<And>e. r = Inl e \<Longrightarrow> P e"
    and "\<And>v e. f v = Inl e \<Longrightarrow> P e"
  shows "P e"
  using assms by (cases r) auto

lemma day_read_error:
  "and_then (getitem_str doc field) (\<lambda>days. getitem_int days i) = Inl e \<Longrightarrow> lookup_error e"
  by (erule and_then_error) (auto dest: getitem_str_error getitem_int_error)

lemma daypart_read_error:
  "and_then (getitem_str doc dp) (\<lambda>dayparts.
   and_then (getitem_int dayparts 0) (\<lambda>daypart.
   and_then (getitem_str daypart field) (\<lambda>vals.
   getitem_int vals p))) = Inl e \<Longrightarrow> lookup_error e"
  apply (erule and_then_error)
   apply (erule getitem_str_error)
  apply (erule and_then_error)
   apply (erule getitem_int_error)
  apply (erule and_then_error)
   apply (erule getitem_str_error)
  apply (erule getitem_int_error)
  done

lemma handled:
  assumes "\<And>e. r = Inl e \<Longrightarrow> lookup_error e"
  shows "(case r of Inr v \<Rightarrow> Inr v
          | Inl e \<Rightarrow> if e \<in> set [IndexError, TypeError, KeyError] then Inr JNull else Inl e)
         = Inr (or_none r)"
  using assms by (cases r) (auto simp: or_none_def lookup_error_def)

text \<open>
  Claim C5.  A period is a natural number \<open>p = 2k\<close> or \<open>p = 2k + 1\<close> below \<open>2 ^ 53\<close>; the
  callers pass the periods 0 to 9.  For every such period \<^verbatim>\<open>get_forecast\<close> does not
  raise: with no active document it returns \<^verbatim>\<open>None\<close>; for a full-day field it reads the
  day array of that field at the index \<open>k = p // 2\<close>, so that the periods \<open>2k\<close> and
  \<open>2k + 1\<close> resolve to the same day \<open>k\<close>; every other field it reads from the first
  day-part record at the index \<open>p\<close> itself; and when a subscript on the way raises, as it does
  for a missing key and for an index out of range, the result is \<^verbatim>\<open>None\<close>.
\<close>

theorem get_forecast_reads:
  assumes "0 \<le> k" and "k < 2 ^ 52" and "b = 0 \<or> b = 1"
  shows "get_forecast c doc field (2 * k + b) =
     Inr (if \<not> truthy doc then JNull
          else if field \<in> set (full_day_fields c) then
            or_none (and_then (getitem_str doc field) (\<lambda>days. getitem_int days k))
          else
            or_none (and_then (getitem_str doc (FIELD_DAYPART c)) (\<lambda>dayparts.
                     and_then (getitem_int dayparts 0) (\<lambda>daypart.
                     and_then (getitem_str daypart field) (\<lambda>vals.
                     getitem_int vals (2 * k + b))))))"
proof -
  from assms have "0 \<le> 2 * k + b" and "2 * k + b < 2 ^ 53"
    by auto
  then have "int_half (2 * k + b) = Inr ((2 * k + b) div 2)"
    by (rule int_half_nonneg)
  moreover from assms(3) have "(2 * k + b) div 2 = k"
    by auto
  ultimately have half: "int_half (2 * k + b) = Inr k"
    by simp
  show ?thesis
  proof (cases "truthy doc")
    case False
    then show ?thesis
      by (simp add: get_forecast_def get_forecast_try_def)
  next
    case True
    show ?thesis
    proof (cases "field \<in> set (full_day_fields c)")
      case day: True
      have "get_forecast_try c doc field (2 * k + b) =
              and_then (getitem_str doc field) (\<lambda>days. getitem_int days k)"
        using True day by (simp add: get_forecast_try_def half)
      with True day show ?thesis
        by (simp add: get_forecast_def handled day_read_error)
    next
      case part: False
      have "get_forecast_try c doc field (2 * k + b) =
              and_then (getitem_str doc (FIELD_DAYPART c)) (\<lambda>dayparts.
              and_then (getitem_int dayparts 0) (\<lambda>daypart.
              and_then (getitem_str daypart field) (\<lambda>vals.
              getitem_int vals (2 * k + b))))"
        using True part by (simp add: get_forecast_try_def)
      with True part show ?thesis
        by (simp add: get_forecast_def handled daypart_read_error)
    qed
  qed
qed

text \<open>Witness for C5: periods 2 and 3 both read day 1 of a full-day field, a day-part
  field is read at the period itself, and an index out of range or a missing key gives
  \<^verbatim>\<open>None\<close>.\<close>

theorem get_forecast_reads_witness:
  "(0::int) \<le> 1 \<and> (1::int) < 2 ^ 52
   \<and> get_forecast api_names forecast_example ''temperatureMax'' (2 * 1 + 0) = Inr (JInt 20)
   \<and> get_forecast api_names forecast_example ''temperatureMax'' (2 * 1 + 1) = Inr (JInt 20)
   \<and> get_forecast api_names forecast_example ''temperature'' (2 * 1 + 1) = Inr (JInt 4)
   \<and> get_forecast api_names forecast_example ''temperatureMax'' (2 * 4 + 0) = Inr JNull
   \<and> get_forecast api_names forecast_example ''qpf'' (2 * 1 + 1) = Inr JNull"
proof -
  have k1: "(0::int) \<le> 1" "(1::int) < 2 ^ 52" and k4: "(0::int) \<le> 4" "(4::int) < 2 ^ 52"
    by simp_all
  have b0: "(0::int) = 0 \<or> (0::int) = 1" and b1: "(1::int) = 0 \<or> (1::int) = 1"
    by simp_all
  show ?thesis
    using k1
      get_forecast_reads [OF k1 b0, of api_names forecast_example "''temperatureMax''"]
      get_forecast_reads [OF k1 b1, of api_names forecast_example "''temperatureMax''"]
      get_forecast_reads [OF k1 b1, of api_names forecast_example "''temperature''"]
      get_forecast_reads [OF k4 b0, of api_names forecast_example "''temperatureMax''"]
      get_forecast_reads [OF k1 b1, of api_names forecast_example "''qpf''"]
    by (simp add: forecast_example_def api_names_def full_day_fields_def or_none_def
          list_index_def)
qed

text \<open>
  The bounds on the period are needed, although no caller passes a period outside them:
  \<^verbatim>\<open>int(period / 2)\<close> truncates towards zero, so the period \<open>-1\<close> reads the first day (10)
  where the index \<open>-1 // 2 = -1\<close> is the last day (30), and the periods \<open>-2\<close> and \<open>-1\<close>
  read different days; for the period \<open>2 ^ 1025\<close> the division raises \<^verbatim>\<open>OverflowError\<close>,
  which the handler does not catch.
\<close>

lemma get_forecast_outside_the_bounds:
  "get_forecast api_names forecast_example ''temperatureMax'' (- 1) = Inr (JInt 10)
   \<and> getitem_int (JArr [JInt 10, JInt 20, JInt 30]) ((- 1) div 2) = Inr (JInt 30)
   \<and> get_forecast api_names forecast_example ''temperatureMax'' (- 2) = Inr (JInt 30)
   \<and> get_forecast api_names forecast_example ''temperatureMax'' (2 ^ 1025) = Inl OverflowError"
  by (simp add: get_forecast_def get_forecast_try_def forecast_example_def api_names_def
        full_day_fields_def int_half_minus_one int_half_minus_two int_half_overflow
        list_index_def del: power_numeral)

text \<open>A string where an array is expected is subscripted as Python subscripts a string:
  the result is the character at the index.\<close>

lemma get_forecast_string_value:
  "get_forecast api_names (JObj [(''temperatureMax'', JStr ''abc'')]) ''temperatureMax'' 2
     = Inr (JStr ''b'')"
  using int_half_nonneg [of 2]
  by (simp add: get_forecast_def get_forecast_try_def api_names_def full_day_fields_def
        list_index_def)

section \<open>Building the request URLs\<close>

lemma build_url_current:
  "build_url env st RESOURCECURRENT sid =
     Inr (''https://api.weather.com/v2/pws/observations/current?stationId='' @ sid
          @ (if numeric_precision st \<noteq> ''none''
             then ''&numericPrecision='' @ numeric_precision st else [])
          @ ''&format=json&apiKey='' @ api_key st @ ''&units='' @ unit_system_api st)"
  by (simp add: build_url_def RESOURCECURRENT_def RESOURCESHARED_def RESOURCEFORECAST_def
        plain_field_def positional_field_def)

lemma build_url_forecast:
  "build_url env st RESOURCEFORECAST sid =
     Inr (''https://api.weather.com/v3/wx/forecast/daily/5day?geocode=''
          @ py_str (py_repr env) (latitude st) @ '','' @ py_str (py_repr env) (longitude st)
          @ ''&language='' @ lang st
          @ ''&format=json&apiKey='' @ api_key st @ ''&units='' @ unit_system_api st)"
  by (simp add: build_url_def RESOURCECURRENT_def RESOURCESHARED_def RESOURCEFORECAST_def
        plain_field_def positional_field_def)

text \<open>
  Claim C9, as amended.  \<^verbatim>\<open>_build_url\<close> puts the station id, the numeric precision, the
  coordinates, the language, the API key and the unit code into the URL exactly as they
  are, character for character, without URL-encoding; the URL is a function of the
  arguments and of the attributes of the coordinator alone, and building it changes
  nothing.  For the current conditions the precision parameter is present unless the
  precision is \<^verbatim>\<open>none\<close>, and there is no language parameter; the forecast is addressed by
  the coordinates, not by the station.
\<close>

theorem build_url_verbatim:
  "build_url env st RESOURCECURRENT sid =
     Inr (''https://api.weather.com/v2/pws/observations/current?stationId='' @ sid
          @ (if numeric_precision st \<noteq> ''none''
             then ''&numericPrecision='' @ numeric_precision st else [])
          @ ''&format=json&apiKey='' @ api_key st @ ''&units='' @ unit_system_api st)
   \<and> build_url env st RESOURCEFORECAST sid =
     Inr (''https://api.weather.com/v3/wx/forecast/daily/5day?geocode=''
          @ py_str (py_repr env) (latitude st) @ '','' @ py_str (py_repr env) (longitude st)
          @ ''&language='' @ lang st
          @ ''&format=json&apiKey='' @ api_key st @ ''&units='' @ unit_system_api st)"
  by (simp only: build_url_current build_url_forecast)

text \<open>
  Counterexample to C9 as stated: a station id with a space, an ampersand, an equals sign
  and a hash arrives in the URL unescaped (and adds a second \<^verbatim>\<open>units\<close> parameter); the
  URL is not the one with the id percent-encoded.
\<close>

theorem build_url_unescaped_counterexample:
  "build_url (env_of all_down_answer) (multi_init example_config) RESOURCECURRENT ''K 1&units=e#''
     = Inr ''https://api.weather.com/v2/pws/observations/current?stationId=K 1&units=e#&numericPrecision=decimal&format=json&apiKey=KEY&units=m''
   \<and> build_url (env_of all_down_answer) (multi_init example_config) RESOURCECURRENT ''K 1&units=e#''
     \<noteq> Inr ''https://api.weather.com/v2/pws/observations/current?stationId=K%201%26units%3De%23&numericPrecision=decimal&format=json&apiKey=KEY&units=m''"
  by (simp add: build_url_current multi_init_def example_config_def)

section \<open>Fetching one station\<close>

lemma same_cache_refl [simp]: "same_cache st st"
  by (simp add: same_cache_def)

lemma same_cache_trans: "same_cache a b \<Longrightarrow> same_cache b c \<Longrightarrow> same_cache a c"
  by (simp add: same_cache_def)

lemma learn_longitude_frame: "same_cache st (fst (learn_longitude c rc st))"
  by (simp add: learn_longitude_def same_cache_def split: sum.splits)

lemma learn_latitude_frame: "same_cache st (fst (learn_latitude c rc st))"
  by (simp add: learn_latitude_def same_cache_def split: sum.splits)

text \<open>A fetch changes nothing but the coordinates (and the count of requests).\<close>

lemma fetch_station_data_try_frame: "same_cache st (fst (fetch_station_data_try env station st))"
  by (auto simp: fetch_station_data_try_def Let_def learn_longitude_def learn_latitude_def
        same_cache_def split: sum.splits prod.splits if_splits)

lemma fetch_station_data_frame: "same_cache st (fst (fetch_station_data env station st))"
proof (cases "fetch_station_data_try env station st")
  case (Pair st1 r)
  with fetch_station_data_try_frame [of st env station] show ?thesis
    by (cases r) (simp_all add: fetch_station_data_def)
qed

text \<open>\<^verbatim>\<open>_fetch_station_data\<close> never raises: its handler turns every exception into the
  result \<^verbatim>\<open>None\<close>.\<close>

lemma fetch_station_data_returns: "\<exists>doc. snd (fetch_station_data env station st) = Inr doc"
  by (simp add: fetch_station_data_def split: prod.splits sum.splits)

lemma fetch_station_data_failed:
  "snd (fetch_station_data_try env station st) = Inl e \<Longrightarrow>
   snd (fetch_station_data env station st) = Inr JNull"
  by (cases "fetch_station_data_try env station st") (simp add: fetch_station_data_def)


lemma check_errors_raises:
  assumes "carries_errors (JObj kvs)"
  shows "\<exists>e. check_errors url (JObj kvs) = Inl e"
proof -
  from assms obtain errs where e: "map_of kvs ''errors'' = Some errs" "truthy errs"
    by (auto simp: carries_errors_def split: option.splits)
  show ?thesis
  proof (cases "py_iter errs")
    case (Inl x)
    with e show ?thesis by (simp add: check_errors_def)
  next
    case (Inr es)
    note it = this
    show ?thesis
    proof (cases "error_messages es")
      case (Inl x)
      with e it show ?thesis by (simp add: check_errors_def)
    next
      case (Inr ms)
      with e it show ?thesis
        by (cases "str_items ms") (simp_all add: check_errors_def)
    qed
  qed
qed

lemma check_current_listed:
  assumes "body = JNull \<or> observations_missing c body \<or> carries_errors body"
  shows "\<exists>e. check_current c url body = Inl e"
proof (cases body)
  case (JObj kvs)
  show ?thesis
  proof (cases "observations_missing c body")
    case True
    with JObj show ?thesis
      by (auto simp: check_current_def observations_missing_def split: option.splits)
  next
    case False
    with assms JObj have "carries_errors (JObj kvs)"
      by simp
    from check_errors_raises [OF this, of url] False JObj show ?thesis
      by (auto simp: check_current_def observations_missing_def split: option.splits)
  qed
qed (simp_all add: check_current_def)

lemma request_checked_listed:
  assumes "session_get env n url = r" and "r = NoResponse \<or> listed_failure c r"
  shows "\<exists>e. and_then (request_json env n url) (\<lambda>rc.
              and_then (check_current c url rc) (\<lambda>u. Inr rc)) = Inl e"
proof (cases r)
  case NoResponse
  with assms(1) show ?thesis
    by (simp add: request_json_def)
next
  case (Response code body_text parsed)
  show ?thesis
  proof (cases "code = 200 \<and> parsed \<noteq> None")
    case False
    with Response assms(1) show ?thesis
      by (auto simp: request_json_def)
  next
    case True
    then obtain body where p: "parsed = Some body" and s: "code = 200"
      by auto
    with assms(2) Response have "body = JNull \<or> observations_missing c body \<or> carries_errors body"
      by (simp add: listed_failure_def)
    from check_current_listed [OF this, of url] obtain e where "check_current c url body = Inl e"
      by auto
    with Response assms(1) p s show ?thesis
      by (simp add: request_json_def)
  qed
qed

lemma fetch_try_current_failed:
  assumes "build_url env st RESOURCECURRENT (pws_id station) = Inr url"
    and "and_then (request_json env (requests st) url) (\<lambda>rc.
           and_then (check_current (names env) url rc) (\<lambda>u. Inr rc)) = Inl e"
  shows "snd (fetch_station_data_try env station st) = Inl e"
  using assms by (simp add: fetch_station_data_try_def Let_def)


lemmas cycle_simps =
  get_weather_def fetch_station_data_def fetch_station_data_try_def build_url_current
  build_url_forecast request_json_def check_current_def check_errors_def check_forecast_def
  learn_longitude_def learn_latitude_def first_observation_field_def list_index_def
  dict_merge_def multi_init_def example_config_def station_a_def station_b_def env_of_def
  api_names_def current_doc_def forecast_example_def Let_def



subsection \<open>Learning the coordinates\<close>

text \<open>Coordinates that are truthy are never replaced by a fetch.\<close>

lemma learn_longitude_keeps:
  "truthy (longitude st) \<Longrightarrow> fst (learn_longitude c rc st) = st"
  by (simp add: learn_longitude_def)

lemma learn_latitude_keeps:
  "truthy (latitude st) \<Longrightarrow> fst (learn_latitude c rc st) = st"
  by (simp add: learn_latitude_def)

lemma learn_longitude_latitude: "latitude (fst (learn_longitude c rc st)) = latitude st"
  by (simp add: learn_longitude_def split: sum.splits)

lemma learn_latitude_longitude: "longitude (fst (learn_latitude c rc st)) = longitude st"
  by (simp add: learn_latitude_def split: sum.splits)

lemma fetch_keeps_truthy_longitude:
  assumes "truthy (longitude st)"
  shows "longitude (fst (fetch_station_data env station st)) = longitude st"
proof -
  have "longitude (fst (fetch_station_data_try env station st)) = longitude st"
    using assms
    by (auto simp: fetch_station_data_try_def Let_def learn_longitude_def learn_latitude_def
          split: sum.splits prod.splits if_splits)
  then show ?thesis
    by (cases "fetch_station_data_try env station st")
       (simp add: fetch_station_data_def split: sum.splits)
qed

lemma fetch_keeps_truthy_latitude:
  assumes "truthy (latitude st)"
  shows "latitude (fst (fetch_station_data env station st)) = latitude st"
proof -
  have "latitude (fst (fetch_station_data_try env station st)) = latitude st"
    using assms
    by (auto simp: fetch_station_data_try_def Let_def learn_longitude_def learn_latitude_def
          split: sum.splits prod.splits if_splits)
  then show ?thesis
    by (cases "fetch_station_data_try env station st")
       (simp add: fetch_station_data_def split: sum.splits)
qed

text \<open>
  Claim C7 says that coordinates, once learned, are never overwritten.  The guard is
  \<^verbatim>\<open>if not self._longitude\<close>, and a longitude of \<open>0.0\<close> is falsy: after the fetch of the
  first station the longitude is \<open>0.0\<close>, learned from its observation, and the fetch of the
  second station in the same cycle overwrites it with \<open>19.0\<close>, while the latitude
  \<open>51.0\<close> of the first station stays.
\<close>

theorem zero_longitude_overwritten:
  "longitude (fst (fetch_station_data (env_of meridian_answer) station_a
                     (multi_init example_config))) = JFloat 0
   \<and> latitude (fst (fetch_station_data (env_of meridian_answer) station_a
                     (multi_init example_config))) = JFloat 51
   \<and> longitude (fst (get_weather (env_of meridian_answer) (multi_init example_config)))
       = JFloat 19
   \<and> latitude (fst (get_weather (env_of meridian_answer) (multi_init example_config)))
       = JFloat 51"
  by (simp add: cycle_simps meridian_answer_def)

section \<open>The refresh cycle\<close>

text \<open>The loop over the stations leaves the cache, the active station and the active
  document alone, because no fetch raises.\<close>

lemma fetch_all_frame: "same_cache st (fst (fetch_all env ss st))"
proof (induction ss arbitrary: st)
  case Nil
  show ?case by simp
next
  case (Cons station rest)
  obtain st1 r where f: "fetch_station_data env station st = (st1, r)"
    by (cases "fetch_station_data env station st")
  with fetch_station_data_returns [of env station st] obtain doc where r: "r = Inr doc"
    by auto
  from f fetch_station_data_frame [of st env station] have "same_cache st st1"
    by simp
  from this Cons.IH [of st1] have "same_cache st (fst (fetch_all env rest st1))"
    by (rule same_cache_trans)
  with f r show ?case
    by (auto split: prod.splits)
qed


lemma fetch_all_truthy: "(s, doc) \<in> set (snd (fetch_all env ss st)) \<Longrightarrow> truthy doc"
proof (induction ss arbitrary: st)
  case Nil
  then show ?case by simp
next
  case (Cons station rest)
  obtain st1 r where f: "fetch_station_data env station st = (st1, r)"
    by (cases "fetch_station_data env station st")
  with fetch_station_data_returns [of env station st] obtain d where r: "r = Inr d"
    by auto
  from Cons.prems Cons.IH [of st1] f r show ?case
    by (auto split: prod.splits if_splits)
qed

text \<open>When the fetch of every station returns \<^verbatim>\<open>None\<close>, no station is successful; so it
  is when no request is answered with status 200.\<close>

lemma fetch_all_none:
  assumes "\<And>station st. snd (fetch_station_data env station st) = Inr JNull"
  shows "snd (fetch_all env ss st) = []"
proof (induction ss arbitrary: st)
  case Nil
  show ?case by simp
next
  case (Cons station rest)
  obtain st1 r where f: "fetch_station_data env station st = (st1, r)"
    by (cases "fetch_station_data env station st")
  with assms [of station st] have "r = Inr JNull"
    by simp
  with f Cons.IH [of st1] show ?case
    by (simp split: prod.splits)
qed

lemma fetch_all_down:
  assumes "\<And>n url. session_get env n url = NoResponse \<or> listed_failure (names env) (session_get env n url)"
  shows "snd (fetch_all env ss st) = []"
proof (rule fetch_all_none)
  fix station :: station_config and st :: coordinator
  obtain url where u: "build_url env st RESOURCECURRENT (pws_id station) = Inr url"
    by (simp add: build_url_current)
  from assms [of "requests st" url]
    request_checked_listed [of env "requests st" url "session_get env (requests st) url" "names env"]
  obtain e where "and_then (request_json env (requests st) url) (\<lambda>rc.
              and_then (check_current (names env) url rc) (\<lambda>u. Inr rc)) = Inl e"
    by auto
  from fetch_try_current_failed [OF u this]
  show "snd (fetch_station_data env station st) = Inr JNull"
    by (rule fetch_station_data_failed)
qed

text \<open>A cycle never removes an entry from the cache.\<close>

lemma update_cache_dom: "dom m \<subseteq> dom (update_cache clock k xs m)"
proof (induction xs arbitrary: k m)
  case Nil
  show ?case by simp
next
  case (Cons sd rest)
  let ?m = "m(pws_id (fst sd) \<mapsto> \<lparr>entry_data = snd sd, last_update = clock k\<rparr>)"
  have "dom m \<subseteq> dom ?m"
    by auto
  from this Cons.IH [of ?m "Suc k"] have "dom m \<subseteq> dom (update_cache clock (Suc k) rest ?m)"
    by (rule subset_trans)
  then show ?case by simp
qed

lemma get_weather_keeps_entries:
  "dom (station_data st) \<subseteq> dom (station_data (fst (get_weather env st)))"
proof -
  obtain st1 successful where f: "fetch_all env (stations st) st = (st1, successful)"
    by (cases "fetch_all env (stations st) st")
  from f fetch_all_frame [of st env "stations st"] have "station_data st1 = station_data st"
    by (simp add: same_cache_def)
  with f update_cache_dom [of "station_data st" "loop_time env" 0 successful] show ?thesis
    by (cases successful) (simp_all add: get_weather_def)
qed

text \<open>If no fetch of the cycle succeeds (the list of successful stations is empty after
  the loop), \<^verbatim>\<open>get_weather\<close> itself assigns neither the active document nor the active
  station, and it returns \<^verbatim>\<open>None\<close>.\<close>

lemma get_weather_all_failed:
  assumes "snd (fetch_all env (stations st) st) = []"
  shows "data (fst (get_weather env st)) = data st
       \<and> active_station (fst (get_weather env st)) = active_station st
       \<and> snd (get_weather env st) = JNull"
proof -
  obtain st1 successful where f: "fetch_all env (stations st) st = (st1, successful)"
    by (cases "fetch_all env (stations st) st")
  with assms have e: "successful = []" by simp
  from f fetch_all_frame [of st env "stations st"] have "same_cache st st1" by simp
  with f e show ?thesis
    by (simp add: get_weather_def same_cache_def)
qed

lemma after_first_cycle_stations: "stations after_first_cycle = [station_a, station_b]"
  by (simp add: after_first_cycle_def cycle_simps both_answer_def)

lemma after_first_cycle_active: "active_station after_first_cycle = Some station_a"
  by (simp add: after_first_cycle_def cycle_simps both_answer_def)

lemma after_first_cycle_data: "truthy (data after_first_cycle)"
  by (simp add: after_first_cycle_def cycle_simps both_answer_def)

lemma after_first_cycle_online:
  "map (\<lambda>e. (fst e, status (snd e))) (station_status after_first_cycle)
     = [(''KAAA1'', ''online''), (''KBBB2'', ''online'')]"
  by (simp add: after_first_cycle_def cycle_simps both_answer_def station_status_def)

lemma all_down_listed:
  "session_get (env_of all_down_answer) n url = NoResponse
   \<or> listed_failure (names (env_of all_down_answer)) (session_get (env_of all_down_answer) n url)"
  by (simp add: env_of_def all_down_answer_def listed_failure_def)

text \<open>After a cycle in which both stations answered, a call of \<^verbatim>\<open>get_weather\<close> in which
  every request gets HTTP 500 leaves the active document and the active station as they
  were.\<close>

lemma get_weather_all_failed_example:
  "snd (fetch_all (env_of all_down_answer) (stations after_first_cycle) after_first_cycle) = []
   \<and> data (fst (get_weather (env_of all_down_answer) after_first_cycle)) = data after_first_cycle
   \<and> truthy (data after_first_cycle)
   \<and> active_station (fst (get_weather (env_of all_down_answer) after_first_cycle)) = Some station_a
   \<and> snd (get_weather (env_of all_down_answer) after_first_cycle) = JNull"
proof -
  have h: "snd (fetch_all (env_of all_down_answer) (stations after_first_cycle) after_first_cycle) = []"
    by (rule fetch_all_down) (rule all_down_listed)
  from get_weather_all_failed [OF h] h after_first_cycle_active after_first_cycle_data
  show ?thesis
    by simp
qed

lemma all_down_no_success:
  "snd (fetch_all (env_of all_down_answer) (stations st) st) = []"
  by (rule fetch_all_down) (rule all_down_listed)

subsection \<open>The refresh when every station fails\<close>

text \<open>The refresh of the multi-station coordinator always reports success, because
  \<^verbatim>\<open>get_weather\<close> returns where it could raise; and when no fetch succeeds the refresh
  stores the \<^verbatim>\<open>None\<close> that \<^verbatim>\<open>get_weather\<close> returns as the active document.\<close>

lemma async_refresh_reports_success: "snd (async_refresh env st) = True"
  by (simp add: async_refresh_def async_update_data_def split: prod.splits)

lemma async_refresh_all_failed:
  assumes "snd (fetch_all env (stations st) st) = []"
  shows "data (fst (async_refresh env st)) = JNull
       \<and> active_station (fst (async_refresh env st)) = active_station st"
  using get_weather_all_failed [OF assms]
  by (cases "get_weather env st") (simp add: async_refresh_def async_update_data_def)

lemma after_first_refresh_data: "truthy (data after_first_refresh)"
  by (simp add: after_first_refresh_def async_refresh_def async_update_data_def cycle_simps
        both_answer_def)

lemma after_first_refresh_active: "active_station after_first_refresh = Some station_a"
  by (simp add: after_first_refresh_def async_refresh_def async_update_data_def cycle_simps
        both_answer_def)

text \<open>
  Claim C2 says that when the fetch of every station fails, the active document and the
  active station are what they were before the cycle and the cycle is reported as failed.
  \<^verbatim>\<open>get_weather\<close> leaves both alone, but it reports the failure by returning \<^verbatim>\<open>None\<close>
  where the refresh expects an exception.  After a refresh in which both stations
  answered, the coordinator has an active document and the station of priority 1 is
  active; a refresh in which every request gets HTTP 500 has no successful fetch, and
  after it the active document is \<^verbatim>\<open>None\<close> and \<^verbatim>\<open>last_update_success\<close> is \<^verbatim>\<open>True\<close>; only
  the active station is what it was.
\<close>

theorem refresh_all_failed_clears_document:
  "truthy (data after_first_refresh)
   \<and> active_station after_first_refresh = Some station_a
   \<and> snd (fetch_all (env_of all_down_answer) (stations after_first_refresh) after_first_refresh)
       = []
   \<and> data (fst (async_refresh (env_of all_down_answer) after_first_refresh)) = JNull
   \<and> snd (async_refresh (env_of all_down_answer) after_first_refresh) = True
   \<and> active_station (fst (async_refresh (env_of all_down_answer) after_first_refresh))
       = Some station_a"
  using async_refresh_all_failed [OF all_down_no_success, of after_first_refresh]
  by (simp add: after_first_refresh_data after_first_refresh_active all_down_no_success
        async_refresh_reports_success)

subsection \<open>Selection of the active station\<close>






subsection \<open>The status of a station whose fetch fails\<close>

text \<open>
  Claim C3 says that a station whose fetch fails is recorded as offline for the cycle.
  \<^verbatim>\<open>get_weather\<close> removes a station from the cache only in its \<^verbatim>\<open>except\<close> branch, and
  \<^verbatim>\<open>_fetch_station_data\<close> never raises (it returns \<^verbatim>\<open>None\<close>), so the entry of an earlier
  success stays and \<^verbatim>\<open>station_status\<close> goes on reporting the station as online.  After a
  cycle in which both stations answered: in a cycle where the first station gets HTTP 500
  and the second answers, and in a cycle where every request gets HTTP 500, both stations
  are reported online.
\<close>

theorem failed_station_reported_online:
  "snd (fetch_station_data (env_of later_first_down_answer) station_a after_first_cycle)
     = Inr JNull
   \<and> active_station (fst (get_weather (env_of later_first_down_answer) after_first_cycle))
     = Some station_b
   \<and> map (\<lambda>e. (fst e, status (snd e)))
       (station_status (fst (get_weather (env_of later_first_down_answer) after_first_cycle)))
     = [(''KAAA1'', ''online''), (''KBBB2'', ''online'')]
   \<and> map (\<lambda>e. (fst e, status (snd e)))
       (station_status (fst (get_weather (env_of all_down_answer) after_first_cycle)))
     = [(''KAAA1'', ''online''), (''KBBB2'', ''online'')]"
  by (simp add: after_first_cycle_def cycle_simps both_answer_def later_first_down_answer_def
        first_down_answer_def all_down_answer_def station_status_def)

section \<open>The single-station fetch\<close>

lemma single_build_url_current:
  "single_build_url env st RESOURCECURRENT =
     Inr (''https://api.weather.com/v2/pws/observations/current?stationId='' @ s_pws_id st
          @ (if s_numeric_precision st \<noteq> ''none''
             then ''&numericPrecision='' @ s_numeric_precision st else [])
          @ ''&format=json&apiKey='' @ s_api_key st @ ''&units='' @ s_unit_system_api st)"
  by (simp add: single_build_url_def RESOURCECURRENT_def RESOURCESHARED_def RESOURCEFORECAST_def
        plain_field_def positional_field_def)

lemma single_build_url_forecast:
  "single_build_url env st RESOURCEFORECAST =
     Inr (''https://api.weather.com/v3/wx/forecast/daily/5day?geocode=''
          @ py_str (py_repr env) (s_latitude st) @ '','' @ py_str (py_repr env) (s_longitude st)
          @ ''&language='' @ s_lang st
          @ ''&format=json&apiKey='' @ s_api_key st @ ''&units='' @ s_unit_system_api st)"
  by (simp add: single_build_url_def RESOURCECURRENT_def RESOURCESHARED_def RESOURCEFORECAST_def
        plain_field_def positional_field_def)

lemmas single_simps =
  single_get_weather_def single_get_weather_try_def single_build_url_current
  single_build_url_forecast single_request_json_def check_errors_def
  single_learn_longitude_def single_learn_latitude_def first_observation_field_def
  list_index_def dict_merge_def example_single_def env_of_def api_names_def current_doc_def
  forecast_example_def Let_def

text \<open>The single-station \<^verbatim>\<open>get_weather\<close> does not look at the HTTP status: answers with
  status 500 and well-formed bodies give a successful fetch.\<close>

lemma single_get_weather_ignores_status:
  "snd (single_get_weather (env_of error_status_answer) example_single)
     = Inr (JObj (dict_merge
                    [(''observations'',
                      JArr [JObj [(''stationID'', JStr ''KAAA1''), (''lon'', JFloat 18),
                                  (''lat'', JFloat 47), (''humidity'', JInt 40),
                                  (''metric'', JObj [(''temp'', JInt 21)])]])]
                    [(''temperatureMax'', JArr [JInt 10, JInt 20, JInt 30]),
                     (''daypart'', JArr [JObj [(''temperature'',
                         JArr [JInt 1, JInt 2, JInt 3, JInt 4, JInt 5, JInt 6])]])]))"
  by (simp add: single_simps error_status_answer_def)

text \<open>An empty observations array is not checked either: with unknown coordinates the
  subscript raises \<^verbatim>\<open>IndexError\<close>, which no handler of the method takes.\<close>

lemma single_get_weather_raises:
  "snd (single_get_weather
          (env_of (\<lambda>n. Response 200 [] (Some (JObj [(''observations'', JArr [])]))))
          example_single) = Inl IndexError"
  by (simp add: single_simps)

text \<open>The guard on the coordinates is the same as in the multi-station fetch: a learned
  longitude of \<open>0.0\<close> is overwritten in the next cycle.\<close>

lemma single_zero_longitude_overwritten:
  "s_longitude (fst (single_get_weather (env_of drifting_answer) example_single)) = JFloat 0
   \<and> s_latitude (fst (single_get_weather (env_of drifting_answer) example_single)) = JFloat 51
   \<and> s_longitude (fst (single_get_weather (env_of drifting_answer)
        (fst (single_get_weather (env_of drifting_answer) example_single)))) = JFloat 19
   \<and> s_latitude (fst (single_get_weather (env_of drifting_answer)
        (fst (single_get_weather (env_of drifting_answer) example_single)))) = JFloat 51"
  by (simp add: single_simps drifting_answer_def)

end
